theory Spec2Isabelle
  imports Complex_Main "HOL-Library.Monad_Syntax" "HOL-Library.Signed_Division" "HOL-Library.Log_Nat"
begin

section \<open>Abstract syntax (ast.h)\<close>

text \<open>
  The fragment of the Keikaku syntax tree that the verified properties exercise.
  In the C sources every node is an \<^verbatim>\<open>ASTNode\<close>; here expressions and
  statements are two datatypes. A statement array (\<^verbatim>\<open>ASTNodeArray\<close>) and
  every loop node carry a natural number standing for their address, because
  the generator engine compares frame pointers with node addresses.
\<close>

datatype BinaryOp =
    OP_ADD | OP_SUB | OP_MUL | OP_DIV | OP_INT_DIV | OP_MOD | OP_POW
  | OP_EQ | OP_NE | OP_LT | OP_LE | OP_GT | OP_GE | OP_AND | OP_OR

datatype expr =
    AST_INTEGER int
  | AST_FLOAT rat
  | AST_STRING string
  | AST_BOOL bool
  | AST_LIST "expr list"
  | AST_IDENTIFIER string
  | AST_BINARY_OP BinaryOp expr expr
  | AST_CALL string "expr list"
  | AST_MEMBER expr string
  | AST_SLICE expr "expr option" "expr option" "expr option"
  | AST_SELF

datatype ASTParam = ASTParam (pattern: expr) (default_value: "expr option") (is_rest: bool)

datatype stmt =
    AST_DESIGNATE expr expr
  | AST_ASSIGN expr expr
  | AST_EXPR_STMT expr
  | AST_CYCLE_WHILE nat expr block
  | AST_CYCLE_THROUGH nat expr expr block
  | AST_CYCLE_FROM_TO nat expr expr expr block
  | AST_PROTOCOL string "ASTParam list" block bool
  | AST_YIELD "expr option"
  | AST_BREAK
  | AST_CONTINUE
  | AST_OVERRIDE string expr
  | AST_SITUATION expr "alignment list"
  | AST_ATTEMPT "stmt list" "string option" "stmt list"
  | AST_PROGRAM "stmt list"
and block = Block (block_addr: nat) (nodes: "stmt list")
and alignment = AST_ALIGNMENT (is_otherwise: bool) (alignment_values: "expr list") (alignment_body: block)

section \<open>Values (interpreter.h)\<close>

datatype GenStatus = GEN_STOPPED | GEN_RUNNING | GEN_SUSPENDED | GEN_DONE

datatype GenFrameType =
    GEN_FRAME_BLOCK | GEN_FRAME_CYCLE_THROUGH | GEN_FRAME_CYCLE_FROM_TO
  | GEN_FRAME_CYCLE_WHILE | GEN_FRAME_DELEGATE

text \<open>The host functions registered by \<^verbatim>\<open>interpreter_create\<close> that the fragment uses.\<close>

datatype BuiltinFn = builtin_declare | builtin_push | builtin_proceed

text \<open>
  \<^verbatim>\<open>struct Function\<close>: the protocol node is held by its parameters, body and
  sequence flag; the closure is the address of an environment.
\<close>

record Function =
  fname :: string
  fparams :: "ASTParam list"
  fbody :: block
  closure :: nat
  is_sequence :: bool

text \<open>
  \<^verbatim>\<open>struct Value\<close>. Integers are the mathematical value of the
  \<^verbatim>\<open>int64_t\<close>; a float is the rational number a finite double denotes.
  Strings and lists are owned by the value and deep-copied by
  \<^verbatim>\<open>value_copy\<close>, so they are held by value; dictionaries, classes,
  instances and promises are pointers, held as addresses. A generator is owned by
  exactly one value (every copy is deep), so the \<^verbatim>\<open>Generator\<close> struct is held
  by value too, but its environment stays an address into the heap of environments.
\<close>

datatype Value =
    VAL_NULL
  | VAL_BOOL bool
  | VAL_INT int
  | VAL_FLOAT rat
  | VAL_STRING string
  | VAL_LIST "Value list"
  | VAL_DICT nat
  | VAL_FUNCTION Function
  | VAL_BUILTIN BuiltinFn
  | VAL_INSTANCE nat
  | VAL_CLASS nat
  | VAL_GENERATOR Generator
  | VAL_PROMISE nat
and Generator =
    Generator (func_val: Function) (env: nat) (self_val: Value) (status: GenStatus)
      (stack: "GenFrame list")
and GenFrame =
    GenFrame (ftype: GenFrameType) (index: nat) (iterable: Value) (current: int)
      (end_val: int) (node: nat)

text \<open>The generator's frame stack is a list in push order: the top is the last element.\<close>

definition gen_push_frame :: "Generator \<Rightarrow> GenFrame \<Rightarrow> Generator" where
  "gen_push_frame gen frame =
     Generator (func_val gen) (env gen) (self_val gen) (status gen) (stack gen @ [frame])"

definition value_generator_new :: "Function \<Rightarrow> nat \<Rightarrow> Value \<Rightarrow> Value" where
  "value_generator_new func e self = VAL_GENERATOR (Generator func e self GEN_SUSPENDED [])"

fun value_is_truthy :: "Value \<Rightarrow> bool" where
  "value_is_truthy VAL_NULL = False"
| "value_is_truthy (VAL_BOOL b) = b"
| "value_is_truthy (VAL_INT i) = (i \<noteq> 0)"
| "value_is_truthy (VAL_FLOAT f) = (f \<noteq> 0)"
| "value_is_truthy (VAL_STRING s) = (length s > 0)"
| "value_is_truthy (VAL_LIST xs) = (length xs > 0)"
| "value_is_truthy _ = True"

text \<open>
  \<^verbatim>\<open>value_equals\<close>: false when the type tags differ, then by tag. Every value
  holding a function owns its own \<^verbatim>\<open>Function\<close> struct (\<^verbatim>\<open>value_copy\<close>
  allocates a fresh one), so the pointer comparison of two function values is false.
\<close>

fun value_equals :: "Value \<Rightarrow> Value \<Rightarrow> bool"
and items_equal :: "Value list \<Rightarrow> Value list \<Rightarrow> bool" where
  "value_equals VAL_NULL b = (case b of VAL_NULL \<Rightarrow> True | _ \<Rightarrow> False)"
| "value_equals (VAL_BOOL x) b = (case b of VAL_BOOL y \<Rightarrow> x = y | _ \<Rightarrow> False)"
| "value_equals (VAL_INT x) b = (case b of VAL_INT y \<Rightarrow> x = y | _ \<Rightarrow> False)"
| "value_equals (VAL_FLOAT x) b = (case b of VAL_FLOAT y \<Rightarrow> x = y | _ \<Rightarrow> False)"
| "value_equals (VAL_STRING x) b = (case b of VAL_STRING y \<Rightarrow> x = y | _ \<Rightarrow> False)"
| "value_equals (VAL_LIST xs) b =
     (case b of VAL_LIST ys \<Rightarrow> if length xs \<noteq> length ys then False else items_equal xs ys
      | _ \<Rightarrow> False)"
| "value_equals (VAL_DICT x) b = (case b of VAL_DICT y \<Rightarrow> x = y | _ \<Rightarrow> False)"
| "value_equals (VAL_FUNCTION x) b = False"
| "value_equals (VAL_BUILTIN x) b = (case b of VAL_BUILTIN y \<Rightarrow> x = y | _ \<Rightarrow> False)"
| "value_equals (VAL_CLASS x) b = (case b of VAL_CLASS y \<Rightarrow> x = y | _ \<Rightarrow> False)"
| "value_equals (VAL_INSTANCE x) b = (case b of VAL_INSTANCE y \<Rightarrow> x = y | _ \<Rightarrow> False)"
| "value_equals (VAL_GENERATOR x) b = False"
| "value_equals (VAL_PROMISE x) b = False"
| "items_equal [] ys = True"
| "items_equal (x # xs) ys =
     (case ys of [] \<Rightarrow> True
      | y # ys' \<Rightarrow> if \<not> value_equals x y then False else items_equal xs ys')"

section \<open>Environments (interpreter.c, env\_*)\<close>

text \<open>
  \<^verbatim>\<open>struct Environment\<close>: the entries are a linked list with the newest
  binding at the head; \<open>parent\<close> and \<open>global\<close> are pointers. All
  environments live in one heap, a list indexed by address; \<^verbatim>\<open>env_create\<close>
  allocates at the end. Deallocation (\<^verbatim>\<open>env_destroy\<close>) is not modelled: an
  address is never reused.
\<close>

record EnvEntry =
  entry_name :: string
  entry_value :: Value
  is_override :: bool

record Environment =
  entries :: "EnvEntry list"
  parent :: "nat option"
  global :: nat

type_synonym heap = "Environment list"

definition env_create :: "heap \<Rightarrow> nat option \<Rightarrow> heap \<times> nat" where
  "env_create h p =
     (h @ [\<lparr>entries = [], parent = p,
             global = (case p of Some q \<Rightarrow> global (h ! q) | None \<Rightarrow> length h)\<rparr>],
      length h)"

definition env_define :: "heap \<Rightarrow> nat \<Rightarrow> string \<Rightarrow> Value \<Rightarrow> heap" where
  "env_define h e name v =
     h[e := (h ! e)\<lparr>entries :=
        \<lparr>entry_name = name, entry_value = v, is_override = False\<rparr> # entries (h ! e)\<rparr>]"

text \<open>\<^verbatim>\<open>env_find\<close> returns the first entry with the name: here, its position.\<close>

fun env_find_from :: "nat \<Rightarrow> EnvEntry list \<Rightarrow> string \<Rightarrow> nat option" where
  "env_find_from i [] name = None"
| "env_find_from i (e # es) name =
     (if entry_name e = name then Some i else env_find_from (Suc i) es name)"

definition env_find :: "heap \<Rightarrow> nat \<Rightarrow> string \<Rightarrow> nat option" where
  "env_find h e name = env_find_from 0 (entries (h ! e)) name"

text \<open>The two assignments \<^verbatim>\<open>entry->value = value\<close> (and the override mark).\<close>

definition entry_assign :: "heap \<Rightarrow> nat \<Rightarrow> nat \<Rightarrow> Value \<Rightarrow> heap" where
  "entry_assign h e i v =
     h[e := (h ! e)\<lparr>entries := (entries (h ! e))[i := (entries (h ! e) ! i)\<lparr>entry_value := v\<rparr>]\<rparr>]"

definition entry_mark_override :: "heap \<Rightarrow> nat \<Rightarrow> nat \<Rightarrow> heap" where
  "entry_mark_override h e i =
     h[e := (h ! e)\<lparr>entries := (entries (h ! e))[i := (entries (h ! e) ! i)\<lparr>is_override := True\<rparr>]\<rparr>]"

definition env_set :: "heap \<Rightarrow> nat \<Rightarrow> string \<Rightarrow> Value \<Rightarrow> heap" where
  "env_set h e name v =
     (case env_find h e name of
        Some i \<Rightarrow> entry_assign h e i v
      | None \<Rightarrow>
         (case parent (h ! e) of
            Some p \<Rightarrow>
              (case env_find h p name of
                 Some i \<Rightarrow> entry_assign h p i v
               | None \<Rightarrow> env_define h e name v)
          | None \<Rightarrow> env_define h e name v))"

definition env_force_set :: "heap \<Rightarrow> nat \<Rightarrow> string \<Rightarrow> Value \<Rightarrow> heap" where
  "env_force_set h e name v =
     (let g = global (h ! e) in
      case env_find h g name of
        Some i \<Rightarrow> entry_mark_override (entry_assign h g i v) g i
      | None \<Rightarrow> env_define h g name v)"

text \<open>
  The walk of \<^verbatim>\<open>env_get\<close> up the parent chain, before the found value is copied.
  The result \<open>Some None\<close> is \<^verbatim>\<open>*found = false\<close>; on a cyclic chain the C
  recursion does not return, and neither does this function (its value is \<open>None\<close>).
\<close>

partial_function (option) env_lookup :: "heap \<Rightarrow> nat \<Rightarrow> string \<Rightarrow> Value option option" where
  "env_lookup h e name =
     (case env_find h e name of
        Some i \<Rightarrow> Some (Some (entry_value (entries (h ! e) ! i)))
      | None \<Rightarrow>
         (case parent (h ! e) of
            Some p \<Rightarrow> env_lookup h p name
          | None \<Rightarrow> Some None))"

declare env_lookup.simps [code]

text \<open>
  \<^verbatim>\<open>value_copy\<close>. Strings, lists and functions are values of the model, so
  their copies are equal to the original. A generator gets a new environment with
  the parent of the source's, into which the source's entries are defined from the
  head on (so their order is reversed), and a copy of its frames; only a
  \<^verbatim>\<open>GEN_FRAME_CYCLE_THROUGH\<close> frame has its iterable copied in depth. The
  recursion goes through the heap, so it is bounded by fuel.
\<close>

fun value_copy :: "nat \<Rightarrow> heap \<Rightarrow> Value \<Rightarrow> (heap \<times> Value) option"
and copy_items :: "nat \<Rightarrow> heap \<Rightarrow> Value list \<Rightarrow> (heap \<times> Value list) option"
and copy_entries :: "nat \<Rightarrow> heap \<Rightarrow> nat \<Rightarrow> EnvEntry list \<Rightarrow> heap option"
and copy_frames :: "nat \<Rightarrow> heap \<Rightarrow> GenFrame list \<Rightarrow> (heap \<times> GenFrame list) option" where
  "value_copy 0 h v = None"
| "value_copy (Suc n) h v =
     (case v of
        VAL_LIST items \<Rightarrow>
          do { (h1, items') \<leftarrow> copy_items n h items; Some (h1, VAL_LIST items') }
      | VAL_GENERATOR src \<Rightarrow>
          (let (h1, e) = env_create h (parent (h ! env src)) in
           do {
             h2 \<leftarrow> copy_entries n h1 e (entries (h ! env src));
             (h3, self) \<leftarrow> value_copy n h2 (self_val src);
             (h4, frames) \<leftarrow> copy_frames n h3 (stack src);
             Some (h4, VAL_GENERATOR (Generator (func_val src) e self (status src) frames))
           })
      | _ \<Rightarrow> Some (h, v))"
| "copy_items 0 h xs = None"
| "copy_items (Suc n) h xs =
     (case xs of
        [] \<Rightarrow> Some (h, [])
      | x # xs' \<Rightarrow>
          do {
            (h1, x') \<leftarrow> value_copy n h x;
            (h2, xs'') \<leftarrow> copy_items n h1 xs';
            Some (h2, x' # xs'')
          })"
| "copy_entries 0 h e es = None"
| "copy_entries (Suc n) h e es =
     (case es of
        [] \<Rightarrow> Some h
      | x # es' \<Rightarrow>
          do {
            (h1, v) \<leftarrow> value_copy n h (entry_value x);
            copy_entries n (env_define h1 e (entry_name x) v) e es'
          })"
| "copy_frames 0 h fs = None"
| "copy_frames (Suc n) h fs =
     (case fs of
        [] \<Rightarrow> Some (h, [])
      | f # fs' \<Rightarrow>
          do {
            (h1, it) \<leftarrow> (if ftype f = GEN_FRAME_CYCLE_THROUGH then value_copy n h (iterable f)
                         else Some (h, iterable f));
            (h2, fs'') \<leftarrow> copy_frames n h1 fs';
            Some (h2, GenFrame (ftype f) (index f) it (current f) (end_val f) (node f) # fs'')
          })"

text \<open>\<^verbatim>\<open>env_get\<close>: the walk, then a copy of the value found.\<close>

definition env_get :: "nat \<Rightarrow> heap \<Rightarrow> nat \<Rightarrow> string \<Rightarrow> (heap \<times> Value option) option" where
  "env_get n h e name =
     do {
       r \<leftarrow> env_lookup h e name;
       case r of
         None \<Rightarrow> Some (h, None)
       | Some v \<Rightarrow> do { (h1, v') \<leftarrow> value_copy n h v; Some (h1, Some v') }
     }"

section \<open>Doubles and numeric binary operators (eval\_binary)\<close>

text \<open>
  \<^verbatim>\<open>eval_binary\<close> converts both operands to \<^verbatim>\<open>double\<close> and computes
  every numeric operator on doubles. A finite double is held as the rational it
  denotes. \<open>round_double\<close> is IEEE-754 binary64 rounding to nearest, ties to even,
  of an exact result in the normal range: 53 significant bits. Results that
  would be subnormal, infinite or NaN are outside the model (\<open>None\<close>).
\<close>

definition pow2 :: "int \<Rightarrow> rat" where
  "pow2 k = (if 0 \<le> k then 2 ^ nat k else 1 / 2 ^ nat (- k))"

text \<open>The binary exponent \<open>e\<close> of a positive rational: \<open>2^e \<le> x < 2^(e+1)\<close>.\<close>

definition exponent_of :: "rat \<Rightarrow> int" where
  "exponent_of x =
     (let (p, q) = quotient_of x; e = bitlen p - bitlen q
      in if pow2 e \<le> x then e else e - 1)"

definition round_half_even :: "rat \<Rightarrow> int" where
  "round_half_even m =
     (let f = \<lfloor>m\<rfloor>; d = m - of_int f
      in if d < 1 / 2 then f else if 1 / 2 < d then f + 1 else if even f then f else f + 1)"

definition round_double :: "rat \<Rightarrow> rat option" where
  "round_double x =
     (if x = 0 then Some 0
      else let e = exponent_of \<bar>x\<bar>;
               u = pow2 (e - 52);
               r = of_int (round_half_even (x / u)) * u
           in if e < - 1022 \<or> pow2 1024 \<le> \<bar>r\<bar> then None else Some r)"

text \<open>
  The cast \<^verbatim>\<open>(int64_t)x\<close> truncates toward zero; it is undefined when the
  truncated value is not an \<^verbatim>\<open>int64_t\<close>.
\<close>

definition int64_of_double :: "rat \<Rightarrow> int option" where
  "int64_of_double x =
     (let t = (if 0 \<le> x then \<lfloor>x\<rfloor> else \<lceil>x\<rceil>)
      in if - (2 ^ 63) \<le> t \<and> t < 2 ^ 63 then Some t else None)"

text \<open>
  The conversion of an operand: \<^verbatim>\<open>left.type == VAL_FLOAT ? left.data.float_val
  : (double)left.data.int_val\<close>. For a value that is neither a float nor an integer
  the C code reads a union member that was not written: no result.
\<close>

definition as_double :: "Value \<Rightarrow> rat option" where
  "as_double v =
     (case v of VAL_FLOAT f \<Rightarrow> Some f | VAL_INT i \<Rightarrow> round_double (of_int i) | _ \<Rightarrow> None)"

definition is_float :: "Value \<Rightarrow> bool" where
  "is_float v = (case v of VAL_FLOAT f \<Rightarrow> True | _ \<Rightarrow> False)"

definition division_by_zero :: string where
  "division_by_zero = ''Division by zero. Even infinity has its limits.''"

text \<open>
  The numeric part of \<^verbatim>\<open>eval_binary\<close> (after both operands are evaluated):
  \<open>Inl\<close> is the message given to \<^verbatim>\<open>runtime_error\<close>, \<open>Inr\<close> the value
  returned. \<^verbatim>\<open>pow\<close> is not modelled. The C remainder is undefined for a zero
  divisor and for \<^verbatim>\<open>INT64_MIN % -1\<close>.
\<close>

definition arith_result :: "bool \<Rightarrow> rat \<Rightarrow> (string + Value) option" where
  "arith_result use_float x =
     do {
       r \<leftarrow> round_double x;
       if use_float then Some (Inr (VAL_FLOAT r))
       else do { i \<leftarrow> int64_of_double r; Some (Inr (VAL_INT i)) }
     }"

definition binary_numeric :: "BinaryOp \<Rightarrow> Value \<Rightarrow> Value \<Rightarrow> (string + Value) option" where
  "binary_numeric op left right =
     do {
       a \<leftarrow> as_double left;
       b \<leftarrow> as_double right;
       let use_float = (is_float left \<or> is_float right) in
       (case op of
          OP_ADD \<Rightarrow> arith_result use_float (a + b)
        | OP_SUB \<Rightarrow> arith_result use_float (a - b)
        | OP_MUL \<Rightarrow> arith_result use_float (a * b)
        | OP_DIV \<Rightarrow>
            if b = 0 then Some (Inl division_by_zero)
            else arith_result True (a / b)
        | OP_INT_DIV \<Rightarrow>
            if b = 0 then Some (Inl division_by_zero)
            else arith_result False (a / b)
        | OP_MOD \<Rightarrow>
            do {
              x \<leftarrow> int64_of_double a;
              y \<leftarrow> int64_of_double b;
              if y = 0 \<or> (x = - (2 ^ 63) \<and> y = - 1) then None
              else Some (Inr (VAL_INT (x smod y)))
            }
        | OP_POW \<Rightarrow> None
        | OP_EQ \<Rightarrow> Some (Inr (VAL_BOOL (a = b)))
        | OP_NE \<Rightarrow> Some (Inr (VAL_BOOL (a \<noteq> b)))
        | OP_LT \<Rightarrow> Some (Inr (VAL_BOOL (a < b)))
        | OP_LE \<Rightarrow> Some (Inr (VAL_BOOL (a \<le> b)))
        | OP_GT \<Rightarrow> Some (Inr (VAL_BOOL (a > b)))
        | OP_GE \<Rightarrow> Some (Inr (VAL_BOOL (a \<ge> b)))
        | _ \<Rightarrow> Some (Inr VAL_NULL))
     }"

section \<open>Slices (eval\_expr, AST\_SLICE)\<close>

text \<open>
  The loop counters are \<^verbatim>\<open>int64_t\<close>; an increment that leaves the range is
  undefined in C and has no result here.
\<close>

definition in_int64 :: "int \<Rightarrow> bool" where
  "in_int64 i = (- (2 ^ 63) \<le> i \<and> i < 2 ^ 63)"

text \<open>\<^verbatim>\<open>for (i = start; i < end; i += step)\<close> with \<open>step > 0\<close>: the indices visited.\<close>

function slice_up :: "int \<Rightarrow> int \<Rightarrow> int \<Rightarrow> int list option" where
  "slice_up i e step =
     (if 0 < step \<and> i < e then
        (if in_int64 (i + step) then map_option ((#) i) (slice_up (i + step) e step) else None)
      else Some [])"
  by pat_completeness auto
termination
  by (relation "measure (\<lambda>(i, e, step). nat (e - i))") auto

text \<open>\<^verbatim>\<open>for (i = ...; i > end; i += step)\<close> with \<open>step < 0\<close>.\<close>

function slice_down :: "int \<Rightarrow> int \<Rightarrow> int \<Rightarrow> int list option" where
  "slice_down i e step =
     (if step < 0 \<and> e < i then
        (if in_int64 (i + step) then map_option ((#) i) (slice_down (i + step) e step) else None)
      else Some [])"
  by pat_completeness auto
termination
  by (relation "measure (\<lambda>(i, e, step). nat (i - e))") auto

text \<open>Negative bounds are taken from the end, then the three clamps of the source.\<close>

definition slice_start :: "int \<Rightarrow> int \<Rightarrow> int" where
  "slice_start len start =
     (let s1 = (if start < 0 then len + start else start);
          s2 = (if s1 < 0 then 0 else s1)
      in if s2 > len then len else s2)"

definition slice_end :: "int \<Rightarrow> int \<Rightarrow> int" where
  "slice_end len e =
     (let e1 = (if e < 0 then len + e else e)
      in if e1 > len then len else e1)"

definition slice_step_zero :: string where
  "slice_step_zero = ''Slice step cannot be zero''"

text \<open>
  The slice of a list (\<open>Inl\<close> is the error message). The elements are copied with
  \<^verbatim>\<open>value_copy\<close> in the order visited.
\<close>

definition slice_list :: "nat \<Rightarrow> heap \<Rightarrow> Value list \<Rightarrow> int \<Rightarrow> int \<Rightarrow> int \<Rightarrow>
    (heap \<times> (string + Value)) option" where
  "slice_list n h items start0 end0 step =
     (let len = int (length items);
          start = slice_start len start0;
          e = slice_end len end0
      in if step = 0 then Some (h, Inl slice_step_zero)
         else do {
           idxs \<leftarrow> (if 0 < step then slice_up start e step
                    else map_option (filter (\<lambda>i. 0 \<le> i \<and> i < len))
                           (slice_down (if e < start then start - 1 else start) e step));
           (h1, res) \<leftarrow> copy_items n h (map (\<lambda>i. items ! nat i) idxs);
           Some (h1, Inr (VAL_LIST res))
         })"

text \<open>
  The slice of a string. Both loops run \<^verbatim>\<open>for (i = start; i < end && i < len;
  i += step)\<close> whatever the sign of the step: with a negative step and
  \<open>start < end\<close> the counter runs below zero without bound, which has no result.
\<close>

definition slice_string :: "string \<Rightarrow> int \<Rightarrow> int \<Rightarrow> int \<Rightarrow> (string + Value) option" where
  "slice_string str start0 end0 step =
     (let len = int (length str);
          start = slice_start len start0;
          e = slice_end len end0
      in if step = 0 then Some (Inl slice_step_zero)
         else if 0 < step then
           map_option (\<lambda>idxs. Inr (VAL_STRING (map (\<lambda>i. str ! nat i) idxs)))
             (slice_up start (min e len) step)
         else if start < e \<and> start < len then None
         else Some (Inr (VAL_STRING [])))"

section \<open>The interpreter state\<close>

record KeikakuClass =
  cname :: string
  cparent :: "nat option"
  methods :: nat

record KeikakuInstance =
  class_def :: nat
  inst_fields :: nat

text \<open>
  \<^verbatim>\<open>struct Interpreter\<close>, with the heap of environments, the class and
  instance structs (by address), and the lines written by \<^verbatim>\<open>declare\<close>, each
  line held as the argument vector printed. \<^verbatim>\<open>current_gen\<close> points to the
  generator being advanced; it is held by value and handed back by
  \<open>interpreter_gen_next\<close>. The diagnostic output of the voice functions and the
  repeat counter of \<^verbatim>\<open>runtime_error\<close> are not modelled.
\<close>

record Interpreter =
  envs :: heap
  classes :: "KeikakuClass list"
  instances :: "KeikakuInstance list"
  global_env :: nat
  current_env :: nat
  return_value :: Value
  has_return :: bool
  has_break :: bool
  has_continue :: bool
  has_error :: bool
  error_buffer :: string
  current_gen :: "Generator option"
  is_resuming :: bool
  resume_stack :: "GenFrame list"
  resume_count :: nat
  printed :: "Value list list"

definition runtime_error :: "Interpreter \<Rightarrow> string \<Rightarrow> Interpreter" where
  "runtime_error st msg = st\<lparr>has_error := True, error_buffer := take 1023 msg\<rparr>"

definition unknown_identifier :: "string \<Rightarrow> string" where
  "unknown_identifier name =
     take 255 ([CHR 0x27] @ name @ [CHR 0x27] @
       '' is unknown. Perhaps you intended to designate it first.'')"

definition unknown_callee :: "string \<Rightarrow> string" where
  "unknown_callee name =
     take 255 ([CHR 0x27] @ name @ [CHR 0x27] @
       '' is unknown. Perhaps you intended to define it first.'')"

definition not_callable :: "string \<Rightarrow> string" where
  "not_callable name = take 255 ([CHR 0x27] @ name @ [CHR 0x27] @ '' is not callable.'')"

definition private_access :: string where
  "private_access = ''Access to private member inhibited.''"

definition private_modification :: string where
  "private_modification = ''Modification of private member inhibited.''"

definition member_not_found :: "string \<Rightarrow> string \<Rightarrow> string" where
  "member_not_found member cls =
     take 255 (''Member '' @ [CHR 0x27] @ member @ [CHR 0x27] @
       '' not found on instance of '' @ [CHR 0x27] @ cls @ [CHR 0x27] @ ''.'')"

text \<open>
  The frame a construct finds on top of the resume stack
  (\<^verbatim>\<open>resume_stack[resume_count - 1]\<close>) while resuming, and its consumption.
\<close>

definition top_frame :: "Interpreter \<Rightarrow> GenFrame option" where
  "top_frame st =
     (if is_resuming st \<and> resume_count st > 0
      then Some (resume_stack st ! (resume_count st - 1)) else None)"

definition consume_frame :: "Interpreter \<Rightarrow> Interpreter" where
  "consume_frame st =
     (let c = resume_count st - 1
      in st\<lparr>resume_count := c, is_resuming := (if c = 0 then False else is_resuming st)\<rparr>)"

text \<open>The guard \<^verbatim>\<open>has_return && current_gen && !has_error\<close> of every frame push.\<close>

definition suspending :: "Interpreter \<Rightarrow> bool" where
  "suspending st = (has_return st \<and> current_gen st \<noteq> None \<and> \<not> has_error st)"

definition push_frame :: "Interpreter \<Rightarrow> GenFrame \<Rightarrow> Interpreter" where
  "push_frame st f =
     (case current_gen st of
        Some g \<Rightarrow> st\<lparr>current_gen := Some (gen_push_frame g f)\<rparr>
      | None \<Rightarrow> st)"

definition stack_count :: "Interpreter \<Rightarrow> nat" where
  "stack_count st = (case current_gen st of Some g \<Rightarrow> length (stack g) | None \<Rightarrow> 0)"

definition set_status :: "Generator \<Rightarrow> GenStatus \<Rightarrow> Generator" where
  "set_status g s = Generator (func_val g) (env g) (self_val g) s (stack g)"

definition int_or_zero :: "Value \<Rightarrow> int" where
  "int_or_zero v = (case v of VAL_INT i \<Rightarrow> i | _ \<Rightarrow> 0)"

definition value_function :: "string \<Rightarrow> ASTParam list \<Rightarrow> block \<Rightarrow> bool \<Rightarrow> nat \<Rightarrow> Value" where
  "value_function name ps body seq cl =
     VAL_FUNCTION \<lparr>fname = name, fparams = ps, fbody = body, closure = cl, is_sequence = seq\<rparr>"

text \<open>
  The private-member check shared by member access and member assignment: the
  member name starts with an underscore and \<open>self\<close> is unbound or bound to another
  instance. The C code compares the instance pointer of whatever \<open>self\<close> is bound
  to; for a value that is not an instance that read has no result.
\<close>

definition private_denied :: "nat \<Rightarrow> Interpreter \<Rightarrow> nat \<Rightarrow> string \<Rightarrow> (Interpreter \<times> bool) option" where
  "private_denied n st inst member =
     (if member \<noteq> [] \<and> hd member = CHR ''_'' then
        do {
          (h, r) \<leftarrow> env_get n (envs st) (current_env st) ''self'';
          case r of
            None \<Rightarrow> Some (st\<lparr>envs := h\<rparr>, True)
          | Some v \<Rightarrow>
              (case v of VAL_INSTANCE p \<Rightarrow> Some (st\<lparr>envs := h\<rparr>, p \<noteq> inst) | _ \<Rightarrow> None)
        }
      else Some (st, False))"

text \<open>\<^verbatim>\<open>eval_expr\<close>, case \<^verbatim>\<open>AST_MEMBER\<close>, once the object is evaluated.\<close>

definition eval_member :: "nat \<Rightarrow> Interpreter \<Rightarrow> Value \<Rightarrow> string \<Rightarrow> (Interpreter \<times> Value) option" where
  "eval_member n st obj member =
     (case obj of
        VAL_INSTANCE inst \<Rightarrow>
          do {
            (st1, denied) \<leftarrow> private_denied n st inst member;
            if denied then Some (runtime_error st1 private_access, VAL_NULL)
            else do {
              (h2, r) \<leftarrow> env_get n (envs st1) (inst_fields (instances st1 ! inst)) member;
              case r of
                Some v \<Rightarrow> do { (h3, res) \<leftarrow> value_copy n h2 v; Some (st1\<lparr>envs := h3\<rparr>, res) }
              | None \<Rightarrow>
                  do {
                    (h3, m) \<leftarrow> env_get n h2
                       (methods (classes st1 ! class_def (instances st1 ! inst))) member;
                    case m of
                      Some v \<Rightarrow>
                        do { (h4, res) \<leftarrow> value_copy n h3 v; Some (st1\<lparr>envs := h4\<rparr>, res) }
                    | None \<Rightarrow>
                        Some (runtime_error (st1\<lparr>envs := h3\<rparr>)
                                (member_not_found member
                                   (cname (classes st1 ! class_def (instances st1 ! inst)))),
                              VAL_NULL)
                  }
            }
          }
      | _ \<Rightarrow> Some (runtime_error st ''Only instances have members.'', VAL_NULL))"

text \<open>\<^verbatim>\<open>assign_to_target\<close>, case \<^verbatim>\<open>AST_MEMBER\<close>, once the object is evaluated.\<close>

definition assign_member :: "nat \<Rightarrow> Interpreter \<Rightarrow> Value \<Rightarrow> string \<Rightarrow> Value \<Rightarrow> Interpreter option" where
  "assign_member n st obj member val =
     (case obj of
        VAL_INSTANCE inst \<Rightarrow>
          do {
            (st1, denied) \<leftarrow> private_denied n st inst member;
            if denied then Some (runtime_error st1 private_modification)
            else do {
              (h2, r) \<leftarrow> env_get n (envs st1) (inst_fields (instances st1 ! inst)) member;
              (h3, c) \<leftarrow> value_copy n h2 val;
              case r of
                Some v \<Rightarrow> Some (st1\<lparr>envs := env_set h3 (inst_fields (instances st1 ! inst)) member c\<rparr>)
              | None \<Rightarrow> Some (st1\<lparr>envs := env_define h3 (inst_fields (instances st1 ! inst)) member c\<rparr>)
            }
          }
      | _ \<Rightarrow> Some (runtime_error st ''Only instances have properties.''))"

section \<open>Evaluation (eval\_expr, eval\_stmt, exec\_block, interpreter\_call, interpreter\_gen\_next)\<close>

text \<open>
  The evaluator of the source is one mutual recursion, and a program may run for
  ever. Every function of the recursion therefore takes, in place of the
  \<^verbatim>\<open>Interpreter *\<close> alone, a handle \<open>ev\<close> through which it makes its
  recursive calls: \<open>with_fuel n\<close> is the evaluator that can nest \<open>n\<close> calls,
  and the handle of \<open>with_fuel (Suc n)\<close> is \<open>with_fuel n\<close>. The result \<open>None\<close>
  means that no result was reached (the fuel ran out, or the step is undefined in
  C or outside the fragment: string operands of a binary operator, \<^verbatim>\<open>pow\<close>).
  Loops over a syntax list or an index range recurse on the list or the range;
  \<^verbatim>\<open>cycle while\<close> and the iteration over a generator, which need not end,
  repeat through the handle.
\<close>

record evaluator =
  fuel :: nat
  ev_expr :: "Interpreter \<Rightarrow> expr \<Rightarrow> (Interpreter \<times> Value) option"
  ev_stmt :: "Interpreter \<Rightarrow> stmt \<Rightarrow> (Interpreter \<times> Value) option"
  ev_assign :: "Interpreter \<Rightarrow> expr \<Rightarrow> Value \<Rightarrow> bool \<Rightarrow> Interpreter option"
  ev_block :: "Interpreter \<Rightarrow> block \<Rightarrow> Interpreter option"
  ev_while :: "Interpreter \<Rightarrow> nat \<Rightarrow> expr \<Rightarrow> block \<Rightarrow> Interpreter option"
  ev_through_gen ::
    "Interpreter \<Rightarrow> nat \<Rightarrow> expr \<Rightarrow> block \<Rightarrow> Generator \<Rightarrow> bool \<Rightarrow> Interpreter option"
  ev_call :: "Interpreter \<Rightarrow> Function \<Rightarrow> Value \<Rightarrow> Value list \<Rightarrow> (Interpreter \<times> Value) option"
  ev_gen_next :: "Interpreter \<Rightarrow> Generator \<Rightarrow> (Interpreter \<times> Value \<times> Generator) option"

text \<open>The argument loop of \<^verbatim>\<open>eval_call\<close> and the element loop of a list literal.\<close>

primrec eval_args :: "evaluator \<Rightarrow> Interpreter \<Rightarrow> expr list \<Rightarrow> (Interpreter \<times> Value list) option" where
  "eval_args ev st [] = Some (st, [])"
| "eval_args ev st (e # es) =
     do {
       (st1, v) \<leftarrow> ev_expr ev st e;
       (st2, vs) \<leftarrow> eval_args ev st1 es;
       Some (st2, v # vs)
     }"

text \<open>
  The host functions. \<^verbatim>\<open>builtin_declare\<close> prints its arguments;
  \<^verbatim>\<open>builtin_push\<close> appends a copy of its second argument to the list it was
  given and returns a copy of that list; \<^verbatim>\<open>builtin_proceed\<close> advances the
  generator it was given.
\<close>

definition call_builtin ::
  "evaluator \<Rightarrow> Interpreter \<Rightarrow> BuiltinFn \<Rightarrow> Value list \<Rightarrow> (Interpreter \<times> Value) option" where
  "call_builtin ev st b argv =
     (case b of
        builtin_declare \<Rightarrow> Some (st\<lparr>printed := printed st @ [argv]\<rparr>, VAL_NULL)
      | builtin_push \<Rightarrow>
          (if length argv < 2 then Some (st, VAL_NULL)
           else case argv ! 0 of
             VAL_LIST items \<Rightarrow>
               do {
                 (h1, x) \<leftarrow> value_copy (fuel ev) (envs st) (argv ! 1);
                 (h2, r) \<leftarrow> value_copy (fuel ev) h1 (VAL_LIST (items @ [x]));
                 Some (st\<lparr>envs := h2\<rparr>, r)
               }
           | _ \<Rightarrow> Some (st, VAL_NULL))
      | builtin_proceed \<Rightarrow>
          (if length argv < 1 then Some (st, VAL_NULL)
           else case argv ! 0 of
             VAL_GENERATOR g \<Rightarrow>
               do { (st1, r, g1) \<leftarrow> ev_gen_next ev st g; Some (st1, r) }
           | _ \<Rightarrow> Some (st, VAL_NULL)))"

text \<open>An optional slice bound: absent, or evaluated (only an integer is used).\<close>

definition eval_bound :: "evaluator \<Rightarrow> Interpreter \<Rightarrow> expr option \<Rightarrow> (Interpreter \<times> Value) option" where
  "eval_bound ev st b = (case b of None \<Rightarrow> Some (st, VAL_NULL) | Some e \<Rightarrow> ev_expr ev st e)"

definition eval_expr :: "evaluator \<Rightarrow> Interpreter \<Rightarrow> expr \<Rightarrow> (Interpreter \<times> Value) option" where
  "eval_expr ev st ex =
     (case ex of
        AST_INTEGER i \<Rightarrow> Some (st, VAL_INT i)
      | AST_FLOAT f \<Rightarrow> Some (st, VAL_FLOAT f)
      | AST_STRING s \<Rightarrow> Some (st, VAL_STRING s)
      | AST_BOOL b \<Rightarrow> Some (st, VAL_BOOL b)
      | AST_IDENTIFIER name \<Rightarrow>
          do {
            (h, r) \<leftarrow> env_get (fuel ev) (envs st) (current_env st) name;
            case r of
              None \<Rightarrow> Some (runtime_error (st\<lparr>envs := h\<rparr>) (unknown_identifier name), VAL_NULL)
            | Some v \<Rightarrow> Some (st\<lparr>envs := h\<rparr>, v)
          }
      | AST_BINARY_OP op l r \<Rightarrow>
          do {
            (st1, left) \<leftarrow> ev_expr ev st l;
            if op = OP_AND then
              (if \<not> value_is_truthy left then Some (st1, VAL_BOOL False)
               else do {
                 (st2, right) \<leftarrow> ev_expr ev st1 r;
                 Some (st2, VAL_BOOL (value_is_truthy right))
               })
            else if op = OP_OR then
              (if value_is_truthy left then Some (st1, VAL_BOOL True)
               else do {
                 (st2, right) \<leftarrow> ev_expr ev st1 r;
                 Some (st2, VAL_BOOL (value_is_truthy right))
               })
            else do {
              (st2, right) \<leftarrow> ev_expr ev st1 r;
              res \<leftarrow> binary_numeric op left right;
              case res of
                Inl msg \<Rightarrow> Some (runtime_error st2 msg, VAL_NULL)
              | Inr v \<Rightarrow> Some (st2, v)
            }
          }
      | AST_CALL name args \<Rightarrow>
          do {
            (h, r) \<leftarrow> env_get (fuel ev) (envs st) (current_env st) name;
            case r of
              None \<Rightarrow> Some (runtime_error (st\<lparr>envs := h\<rparr>) (unknown_callee name), VAL_NULL)
            | Some func \<Rightarrow>
                do {
                  (st1, argv) \<leftarrow> eval_args ev (st\<lparr>envs := h\<rparr>) args;
                  case func of
                    VAL_BUILTIN b \<Rightarrow> call_builtin ev st1 b argv
                  | VAL_FUNCTION f \<Rightarrow> ev_call ev st1 f VAL_NULL argv
                  | _ \<Rightarrow> Some (runtime_error st1 (not_callable name), VAL_NULL)
                }
          }
      | AST_LIST elements \<Rightarrow>
          do { (st1, vs) \<leftarrow> eval_args ev st elements; Some (st1, VAL_LIST vs) }
      | AST_MEMBER object member \<Rightarrow>
          do { (st1, obj) \<leftarrow> ev_expr ev st object; eval_member (fuel ev) st1 obj member }
      | AST_SLICE object start_e end_e step_e \<Rightarrow>
          do {
            (st1, obj) \<leftarrow> ev_expr ev st object;
            case obj of
              VAL_LIST items \<Rightarrow>
                do {
                  (st2, a) \<leftarrow> eval_bound ev st1 start_e;
                  (st3, b) \<leftarrow> eval_bound ev st2 end_e;
                  (st4, c) \<leftarrow> eval_bound ev st3 step_e;
                  (h, res) \<leftarrow> slice_list (fuel ev) (envs st4) items
                     (case a of VAL_INT i \<Rightarrow> i | _ \<Rightarrow> 0)
                     (case b of VAL_INT i \<Rightarrow> i | _ \<Rightarrow> int (length items))
                     (case c of VAL_INT i \<Rightarrow> i | _ \<Rightarrow> 1);
                  case res of
                    Inl msg \<Rightarrow> Some (runtime_error (st4\<lparr>envs := h\<rparr>) msg, VAL_NULL)
                  | Inr v \<Rightarrow> Some (st4\<lparr>envs := h\<rparr>, v)
                }
            | VAL_STRING str \<Rightarrow>
                do {
                  (st2, a) \<leftarrow> eval_bound ev st1 start_e;
                  (st3, b) \<leftarrow> eval_bound ev st2 end_e;
                  (st4, c) \<leftarrow> eval_bound ev st3 step_e;
                  res \<leftarrow> slice_string str
                     (case a of VAL_INT i \<Rightarrow> i | _ \<Rightarrow> 0)
                     (case b of VAL_INT i \<Rightarrow> i | _ \<Rightarrow> int (length str))
                     (case c of VAL_INT i \<Rightarrow> i | _ \<Rightarrow> 1);
                  case res of
                    Inl msg \<Rightarrow> Some (runtime_error st4 msg, VAL_NULL)
                  | Inr v \<Rightarrow> Some (st4, v)
                }
            | _ \<Rightarrow> Some (runtime_error st1 ''Slice requires list or string'', VAL_NULL)
          }
      | AST_SELF \<Rightarrow>
          do {
            (h, r) \<leftarrow> env_get (fuel ev) (envs st) (current_env st) ''self'';
            case r of
              None \<Rightarrow>
                Some (runtime_error (st\<lparr>envs := h\<rparr>)
                        ([CHR 0x27] @ ''self'' @ [CHR 0x27] @ '' can only be used inside a method''),
                      VAL_NULL)
            | Some v \<Rightarrow> do { (h1, c) \<leftarrow> value_copy (fuel ev) h v; Some (st\<lparr>envs := h1\<rparr>, c) }
          })"

text \<open>The destructuring loop of \<^verbatim>\<open>assign_to_target\<close>: element \<open>i\<close> gets item \<open>i\<close> or void.\<close>

primrec assign_elements ::
  "evaluator \<Rightarrow> Interpreter \<Rightarrow> expr list \<Rightarrow> Value list \<Rightarrow> nat \<Rightarrow> bool \<Rightarrow> Interpreter option" where
  "assign_elements ev st [] items i is_designate = Some st"
| "assign_elements ev st (t # ts) items i is_designate =
     do {
       st1 \<leftarrow> ev_assign ev st t (if i < length items then items ! i else VAL_NULL) is_designate;
       assign_elements ev st1 ts items (i + 1) is_designate
     }"

definition assign_to_target ::
  "evaluator \<Rightarrow> Interpreter \<Rightarrow> expr \<Rightarrow> Value \<Rightarrow> bool \<Rightarrow> Interpreter option" where
  "assign_to_target ev st target val is_designate =
     (case target of
        AST_IDENTIFIER name \<Rightarrow>
          do {
            (h, c) \<leftarrow> value_copy (fuel ev) (envs st) val;
            Some (st\<lparr>envs := (if is_designate then env_define h (current_env st) name c
                                else env_set h (current_env st) name c)\<rparr>)
          }
      | AST_LIST elements \<Rightarrow>
          (case val of
             VAL_LIST items \<Rightarrow> assign_elements ev st elements items 0 is_designate
           | _ \<Rightarrow> Some (runtime_error st ''Unable to destructure non-list value.''))
      | AST_MEMBER object member \<Rightarrow>
          do { (st1, obj) \<leftarrow> ev_expr ev st object; assign_member (fuel ev) st1 obj member val }
      | _ \<Rightarrow> Some (runtime_error st ''Invalid assignment target.''))"

text \<open>
  \<^verbatim>\<open>exec_block\<close>. The loop runs the statements from \<open>i\<close> on; \<open>stmts\<close> is the
  address of the array and \<open>rest\<close> its statements from index \<open>i\<close>. When a
  statement leaves a signal set and the generator is suspending, the block pushes
  its frame: index \<open>i\<close> if the statement pushed frames of its own, \<open>i + 1\<close>
  otherwise.
\<close>

primrec exec_block_from ::
  "evaluator \<Rightarrow> Interpreter \<Rightarrow> nat \<Rightarrow> stmt list \<Rightarrow> nat \<Rightarrow> Interpreter option" where
  "exec_block_from ev st stmts [] i = Some st"
| "exec_block_from ev st stmts (s # rest) i =
     do {
       (st1, v) \<leftarrow> ev_stmt ev st s;
       if has_return st1 \<or> has_error st1 \<or> has_break st1 \<or> has_continue st1 then
         Some (if suspending st1 then
                 push_frame st1
                   (GenFrame GEN_FRAME_BLOCK
                      (if stack_count st1 > stack_count st then i else i + 1)
                      VAL_NULL 0 0 stmts)
               else st1)
       else exec_block_from ev st1 stmts rest (i + 1)
     }"

text \<open>The frame on top of the resume stack, if it has the given type and node.\<close>

definition matching_frame :: "Interpreter \<Rightarrow> GenFrameType \<Rightarrow> nat \<Rightarrow> GenFrame option" where
  "matching_frame st t nd =
     (case top_frame st of
        Some f \<Rightarrow> if ftype f = t \<and> node f = nd then Some f else None
      | None \<Rightarrow> None)"

definition exec_block :: "evaluator \<Rightarrow> Interpreter \<Rightarrow> block \<Rightarrow> Interpreter option" where
  "exec_block ev st stmts =
     (case matching_frame st GEN_FRAME_BLOCK (block_addr stmts) of
        Some f \<Rightarrow>
          exec_block_from ev (consume_frame st) (block_addr stmts)
            (drop (index f) (nodes stmts)) (index f)
      | None \<Rightarrow> exec_block_from ev st (block_addr stmts) (nodes stmts) 0)"

definition cycle_while ::
  "evaluator \<Rightarrow> Interpreter \<Rightarrow> nat \<Rightarrow> expr \<Rightarrow> block \<Rightarrow> Interpreter option" where
  "cycle_while ev st nd cond body =
     do {
       (st1, enter) \<leftarrow>
         (case matching_frame st GEN_FRAME_CYCLE_WHILE nd of
            Some f \<Rightarrow> Some (consume_frame st, True)
          | None \<Rightarrow>
              do { (sa, c) \<leftarrow> ev_expr ev st cond; Some (sa, value_is_truthy c) });
       if \<not> enter then Some st1
       else do {
         st2 \<leftarrow> ev_block ev st1 body;
         if has_continue st2 then ev_while ev (st2\<lparr>has_continue := False\<rparr>) nd cond body
         else if has_break st2 then Some (st2\<lparr>has_break := False\<rparr>)
         else if has_return st2 \<or> has_error st2 then
           Some (if suspending st2 then
                   push_frame st2 (GenFrame GEN_FRAME_CYCLE_WHILE 0 VAL_NULL 0 0 nd)
                 else st2)
         else ev_while ev st2 nd cond body
       }
     }"

text \<open>The loop \<^verbatim>\<open>for (i = current_i; i < end_val; i++)\<close> of \<^verbatim>\<open>AST_CYCLE_FROM_TO\<close>.\<close>

function cycle_from_to ::
  "evaluator \<Rightarrow> Interpreter \<Rightarrow> nat \<Rightarrow> expr \<Rightarrow> block \<Rightarrow> int \<Rightarrow> int \<Rightarrow> Interpreter option" where
  "cycle_from_to ev st nd pat body i e_val =
     (if i < e_val then
        do {
          st1 \<leftarrow> ev_assign ev st pat (VAL_INT i) True;
          st2 \<leftarrow> ev_block ev st1 body;
          if has_continue st2 then
            cycle_from_to ev (st2\<lparr>has_continue := False\<rparr>) nd pat body (i + 1) e_val
          else if has_break st2 then Some (st2\<lparr>has_break := False\<rparr>)
          else if has_return st2 \<or> has_error st2 then
            Some (if suspending st2 then
                    push_frame st2 (GenFrame GEN_FRAME_CYCLE_FROM_TO 0 VAL_NULL i e_val nd)
                  else st2)
          else cycle_from_to ev st2 nd pat body (i + 1) e_val
        }
      else Some st)"
  by pat_completeness auto
termination
  by (relation "measure (\<lambda>(ev, st, nd, pat, body, i, e_val). nat (e_val - i))") auto

text \<open>
  The list loop of \<^verbatim>\<open>AST_CYCLE_THROUGH\<close>: \<open>items\<close> is the whole list (copied
  into the frame), \<open>rest\<close> its elements from index \<open>i\<close>. This loop tests only
  the return and error signals.
\<close>

primrec cycle_through_list ::
  "evaluator \<Rightarrow> Interpreter \<Rightarrow> nat \<Rightarrow> expr \<Rightarrow> block \<Rightarrow> Value list \<Rightarrow> Value list \<Rightarrow> nat \<Rightarrow>
   Interpreter option" where
  "cycle_through_list ev st nd pat body items [] i = Some st"
| "cycle_through_list ev st nd pat body items (x # rest) i =
     do {
       st1 \<leftarrow> ev_assign ev st pat x True;
       st2 \<leftarrow> ev_block ev st1 body;
       if has_return st2 \<or> has_error st2 then
         (if suspending st2 then
            do {
              (h, c) \<leftarrow> value_copy (fuel ev) (envs st2) (VAL_LIST items);
              Some (push_frame (st2\<lparr>envs := h\<rparr>) (GenFrame GEN_FRAME_CYCLE_THROUGH i c 0 0 nd))
            }
          else Some st2)
       else cycle_through_list ev st2 nd pat body items rest (i + 1)
     }"

text \<open>
  The generator loop of \<^verbatim>\<open>AST_CYCLE_THROUGH\<close>. \<open>g\<close> is the generator held by
  the local \<^verbatim>\<open>iterable\<close>; \<open>resuming_into_body\<close> holds in the first iteration
  of a resumption with frames left.
\<close>

definition cycle_through_gen ::
  "evaluator \<Rightarrow> Interpreter \<Rightarrow> nat \<Rightarrow> expr \<Rightarrow> block \<Rightarrow> Generator \<Rightarrow> bool \<Rightarrow> Interpreter option" where
  "cycle_through_gen ev st nd pat body g resuming_into_body =
     do {
       (st1, g1, enter) \<leftarrow>
         (if resuming_into_body then Some (st, g, True)
          else do {
            (sa, next_val, ga) \<leftarrow> ev_gen_next ev st g;
            if next_val = VAL_NULL \<and> status ga = GEN_DONE then Some (sa, ga, False)
            else do {
              sb \<leftarrow> ev_assign ev sa pat next_val True;
              Some (sb, ga, True)
            }
          });
       if \<not> enter then Some st1
       else do {
         st2 \<leftarrow> ev_block ev st1 body;
         if has_continue st2 then
           ev_through_gen ev (st2\<lparr>has_continue := False\<rparr>) nd pat body g1 False
         else if has_break st2 then Some (st2\<lparr>has_break := False\<rparr>)
         else if has_return st2 \<or> has_error st2 then
           (if suspending st2 then
              do {
                (h, c) \<leftarrow> value_copy (fuel ev) (envs st2) (VAL_GENERATOR g1);
                Some (push_frame (st2\<lparr>envs := h\<rparr>)
                        (GenFrame GEN_FRAME_CYCLE_THROUGH 0 c 0 0 nd))
              }
            else Some st2)
         else ev_through_gen ev st2 nd pat body g1 False
       }
     }"

text \<open>\<^verbatim>\<open>AST_SITUATION\<close>: the values of one alignment, then the alignments in order.\<close>

primrec situation_values ::
  "evaluator \<Rightarrow> Interpreter \<Rightarrow> Value \<Rightarrow> expr list \<Rightarrow> block \<Rightarrow> (Interpreter \<times> bool) option" where
  "situation_values ev st val [] body = Some (st, False)"
| "situation_values ev st val (e # rest) body =
     do {
       (st1, case_val) \<leftarrow> ev_expr ev st e;
       if value_equals val case_val then
         do { st2 \<leftarrow> ev_block ev st1 body; Some (st2, True) }
       else situation_values ev st1 val rest body
     }"

primrec situation_alignments ::
  "evaluator \<Rightarrow> Interpreter \<Rightarrow> Value \<Rightarrow> alignment list \<Rightarrow> (Interpreter \<times> bool) option" where
  "situation_alignments ev st val [] = Some (st, False)"
| "situation_alignments ev st val (a # rest) =
     (if is_otherwise a then situation_alignments ev st val rest
      else do {
        (st1, matched) \<leftarrow> situation_values ev st val (alignment_values a) (alignment_body a);
        if matched then Some (st1, True) else situation_alignments ev st1 val rest
      })"

text \<open>\<^verbatim>\<open>AST_ATTEMPT\<close>: the two statement loops.\<close>

primrec attempt_try ::
  "evaluator \<Rightarrow> Interpreter \<Rightarrow> stmt list \<Rightarrow> Value \<Rightarrow> (Interpreter \<times> Value) option" where
  "attempt_try ev st [] result = Some (st, result)"
| "attempt_try ev st (s # rest) result =
     do {
       (st1, r) \<leftarrow> ev_stmt ev st s;
       if has_error st1 \<or> has_return st1 then Some (st1, r)
       else attempt_try ev st1 rest r
     }"

primrec attempt_recover ::
  "evaluator \<Rightarrow> Interpreter \<Rightarrow> stmt list \<Rightarrow> Value \<Rightarrow> (Interpreter \<times> Value) option" where
  "attempt_recover ev st [] result = Some (st, result)"
| "attempt_recover ev st (s # rest) result =
     do {
       (st1, r) \<leftarrow> ev_stmt ev st s;
       if has_return st1 then Some (st1, r)
       else attempt_recover ev st1 rest r
     }"

text \<open>\<^verbatim>\<open>AST_PROGRAM\<close>: every top-level statement is evaluated in turn.\<close>

primrec program_statements ::
  "evaluator \<Rightarrow> Interpreter \<Rightarrow> stmt list \<Rightarrow> Value \<Rightarrow> (Interpreter \<times> Value) option" where
  "program_statements ev st [] last_v = Some (st, last_v)"
| "program_statements ev st (s # rest) last_v =
     do {
       (st1, r) \<leftarrow> ev_stmt ev st s;
       program_statements ev st1 rest r
     }"

definition eval_stmt :: "evaluator \<Rightarrow> Interpreter \<Rightarrow> stmt \<Rightarrow> (Interpreter \<times> Value) option" where
  "eval_stmt ev st s =
     (if has_return st then Some (st, VAL_NULL)
      else case s of
        AST_DESIGNATE target value_e \<Rightarrow>
          do {
            (st1, val) \<leftarrow> ev_expr ev st value_e;
            st2 \<leftarrow> ev_assign ev st1 target val True;
            Some (st2, VAL_NULL)
          }
      | AST_ASSIGN target value_e \<Rightarrow>
          do {
            (st1, val) \<leftarrow> ev_expr ev st value_e;
            st2 \<leftarrow> ev_assign ev st1 target val False;
            Some (st2, VAL_NULL)
          }
      | AST_EXPR_STMT e \<Rightarrow> ev_expr ev st e
      | AST_CYCLE_WHILE nd cond body \<Rightarrow>
          do { st1 \<leftarrow> ev_while ev st nd cond body; Some (st1, VAL_NULL) }
      | AST_CYCLE_THROUGH nd iter_e pat body \<Rightarrow>
          do {
            (st1, it, start_idx, initially_resuming_gen) \<leftarrow>
              (case matching_frame st GEN_FRAME_CYCLE_THROUGH nd of
                 Some f \<Rightarrow>
                   do {
                     (h, c) \<leftarrow> value_copy (fuel ev) (envs st) (iterable f);
                     Some (consume_frame (st\<lparr>envs := h\<rparr>), c, index f,
                           (case iterable f of VAL_GENERATOR g \<Rightarrow> resume_count st - 1 > 0
                            | _ \<Rightarrow> False))
                   }
               | None \<Rightarrow>
                   do { (sa, v) \<leftarrow> ev_expr ev st iter_e; Some (sa, v, 0, False) });
            case it of
              VAL_LIST items \<Rightarrow>
                do {
                  st2 \<leftarrow> cycle_through_list ev st1 nd pat body items (drop start_idx items)
                           start_idx;
                  Some (st2, VAL_NULL)
                }
            | VAL_GENERATOR g \<Rightarrow>
                do {
                  st2 \<leftarrow> ev_through_gen ev st1 nd pat body g initially_resuming_gen;
                  Some (st2, VAL_NULL)
                }
            | _ \<Rightarrow>
                Some (runtime_error st1 ''Can only cycle through a list or sequence.'', VAL_NULL)
          }
      | AST_CYCLE_FROM_TO nd start_e end_e pat body \<Rightarrow>
          do {
            (st1, current_i, e_val) \<leftarrow>
              (case matching_frame st GEN_FRAME_CYCLE_FROM_TO nd of
                 Some f \<Rightarrow> Some (consume_frame st, current f, end_val f)
               | None \<Rightarrow>
                   do {
                     (sa, a) \<leftarrow> ev_expr ev st start_e;
                     (sb, b) \<leftarrow> ev_expr ev sa end_e;
                     Some (sb, int_or_zero a, int_or_zero b)
                   });
            st2 \<leftarrow> cycle_from_to ev st1 nd pat body current_i e_val;
            Some (st2, VAL_NULL)
          }
      | AST_PROTOCOL name ps body seq \<Rightarrow>
          Some (st\<lparr>envs := env_define (envs st) (current_env st) name
                             (value_function name ps body seq (current_env st))\<rparr>,
                VAL_NULL)
      | AST_YIELD value_e \<Rightarrow>
          (case value_e of
             Some e \<Rightarrow>
               do {
                 (st1, v) \<leftarrow> ev_expr ev st e;
                 Some (st1\<lparr>return_value := v, has_return := True\<rparr>, VAL_NULL)
               }
           | None \<Rightarrow> Some (st\<lparr>return_value := VAL_NULL, has_return := True\<rparr>, VAL_NULL))
      | AST_BREAK \<Rightarrow> Some (st\<lparr>has_break := True\<rparr>, VAL_NULL)
      | AST_CONTINUE \<Rightarrow> Some (st\<lparr>has_continue := True\<rparr>, VAL_NULL)
      | AST_OVERRIDE name value_e \<Rightarrow>
          do {
            (st1, val) \<leftarrow> ev_expr ev st value_e;
            Some (st1\<lparr>envs := env_force_set (envs st1) (current_env st1) name val\<rparr>, VAL_NULL)
          }
      | AST_SITUATION value_e alignments \<Rightarrow>
          do {
            (st1, val) \<leftarrow> ev_expr ev st value_e;
            (st2, matched) \<leftarrow> situation_alignments ev st1 val alignments;
            st3 \<leftarrow> (if \<not> matched then
                      (case find is_otherwise alignments of
                         Some a \<Rightarrow> ev_block ev st2 (alignment_body a)
                       | None \<Rightarrow> Some st2)
                    else Some st2);
            Some (st3, VAL_NULL)
          }
      | AST_ATTEMPT try_body error_var recover_body \<Rightarrow>
          do {
            (st1, result) \<leftarrow> attempt_try ev (st\<lparr>has_error := False\<rparr>) try_body VAL_NULL;
            if has_error st1 \<and> length recover_body > 0 then
              attempt_recover ev
                (case error_var of
                   Some v \<Rightarrow>
                     st1\<lparr>has_error := False, error_buffer := [],
                         envs := env_define (envs st1) (current_env st1) v
                                   (VAL_STRING (error_buffer st1))\<rparr>
                 | None \<Rightarrow> st1\<lparr>has_error := False, error_buffer := []\<rparr>)
                recover_body result
            else if \<not> has_error st1 then
              Some (st1\<lparr>has_error := has_error st, error_buffer := error_buffer st\<rparr>, result)
            else Some (st1, result)
          }
      | AST_PROGRAM statements \<Rightarrow> program_statements ev st statements VAL_NULL)"

text \<open>The parameter loop of \<^verbatim>\<open>interpreter_call\<close>; \<open>i\<close> is the parameter index.\<close>

primrec bind_params ::
  "evaluator \<Rightarrow> Interpreter \<Rightarrow> ASTParam list \<Rightarrow> Value list \<Rightarrow> nat \<Rightarrow> Interpreter option" where
  "bind_params ev st [] argv i = Some st"
| "bind_params ev st (p # rest) argv i =
     (if is_rest p then
        do {
          (h, items) \<leftarrow> copy_items (fuel ev) (envs st) (drop i argv);
          ev_assign ev (st\<lparr>envs := h\<rparr>) (pattern p) (VAL_LIST items) True
        }
      else do {
        st1 \<leftarrow>
          (if i < length argv then ev_assign ev st (pattern p) (argv ! i) True
           else case default_value p of
             Some d \<Rightarrow>
               do {
                 (sa, dv) \<leftarrow> ev_expr ev st d;
                 ev_assign ev sa (pattern p) dv True
               }
           | None \<Rightarrow> ev_assign ev st (pattern p) VAL_NULL True);
        bind_params ev st1 rest argv (i + 1)
      })"

definition interpreter_call ::
  "evaluator \<Rightarrow> Interpreter \<Rightarrow> Function \<Rightarrow> Value \<Rightarrow> Value list \<Rightarrow> (Interpreter \<times> Value) option" where
  "interpreter_call ev st func self argv =
     (let (h, call_env) = env_create (envs st) (Some (closure func));
          old_env = current_env st
      in do {
        st1 \<leftarrow> (if self \<noteq> VAL_NULL then
                  do {
                    (h1, c) \<leftarrow> value_copy (fuel ev) h self;
                    Some (st\<lparr>envs := env_define h1 call_env ''self'' c, current_env := call_env\<rparr>)
                  }
                else Some (st\<lparr>envs := h, current_env := call_env\<rparr>));
        st2 \<leftarrow> bind_params ev st1 (fparams func) argv 0;
        if is_sequence func then
          do {
            (h2, c) \<leftarrow> value_copy (fuel ev) (envs st2) self;
            Some (st2\<lparr>envs := h2, current_env := old_env\<rparr>, value_generator_new func call_env c)
          }
        else do {
          st3 \<leftarrow> ev_block ev st2 (fbody func);
          if has_return st3 then
            Some (st3\<lparr>return_value := VAL_NULL, has_return := False, current_env := old_env\<rparr>,
                  return_value st3)
          else Some (st3\<lparr>current_env := old_env\<rparr>, VAL_NULL)
        }
      })"

text \<open>
  \<^verbatim>\<open>interpreter_gen_next\<close>. The generator's saved stack becomes the resume
  stack and the generator starts a new, empty one; the body block runs in the
  generator's environment; the status is set from the return signal; the caller's
  environment, generator and resume state are restored. The result carries the
  generator as the call leaves it.
\<close>

definition gen_resume :: "Interpreter \<Rightarrow> Generator \<Rightarrow> Interpreter" where
  "gen_resume st gen =
     st\<lparr>resume_stack := stack gen,
        resume_count := length (stack gen),
        is_resuming := (length (stack gen) > 0),
        current_gen := Some (Generator (func_val gen) (env gen) (self_val gen) (status gen) []),
        current_env := env gen\<rparr>"

definition gen_restore :: "Interpreter \<Rightarrow> Interpreter \<Rightarrow> Interpreter" where
  "gen_restore old st =
     st\<lparr>current_env := current_env old, current_gen := current_gen old,
        is_resuming := is_resuming old, resume_stack := resume_stack old,
        resume_count := resume_count old\<rparr>"

definition interpreter_gen_next ::
  "evaluator \<Rightarrow> Interpreter \<Rightarrow> Generator \<Rightarrow> (Interpreter \<times> Value \<times> Generator) option" where
  "interpreter_gen_next ev st gen =
     (if status gen = GEN_DONE then Some (st, VAL_NULL, gen)
      else do {
        st2 \<leftarrow> ev_block ev (gen_resume st gen) (fbody (func_val gen));
        g2 \<leftarrow> current_gen st2;
        if has_return st2 then
          Some (gen_restore st (st2\<lparr>return_value := VAL_NULL, has_return := False\<rparr>),
                return_value st2, set_status g2 GEN_SUSPENDED)
        else Some (gen_restore st st2, VAL_NULL, set_status g2 GEN_DONE)
      })"

text \<open>The evaluator with fuel \<open>n\<close>: without fuel no call returns.\<close>

primrec with_fuel :: "nat \<Rightarrow> evaluator" where
  "with_fuel 0 =
     \<lparr>fuel = 0,
      ev_expr = (\<lambda>st e. None),
      ev_stmt = (\<lambda>st s. None),
      ev_assign = (\<lambda>st t v d. None),
      ev_block = (\<lambda>st b. None),
      ev_while = (\<lambda>st nd c b. None),
      ev_through_gen = (\<lambda>st nd p b g r. None),
      ev_call = (\<lambda>st f s a. None),
      ev_gen_next = (\<lambda>st g. None)\<rparr>"
| "with_fuel (Suc n) =
     (let ev = with_fuel n in
      \<lparr>fuel = Suc n,
       ev_expr = eval_expr ev,
       ev_stmt = eval_stmt ev,
       ev_assign = assign_to_target ev,
       ev_block = exec_block ev,
       ev_while = cycle_while ev,
       ev_through_gen = cycle_through_gen ev,
       ev_call = interpreter_call ev,
       ev_gen_next = interpreter_gen_next ev\<rparr>)"

text \<open>\<^verbatim>\<open>interpreter_execute\<close> and the exit code of \<^verbatim>\<open>run_source_repl\<close> (main.c).\<close>

definition interpreter_execute :: "nat \<Rightarrow> Interpreter \<Rightarrow> stmt \<Rightarrow> (Interpreter \<times> Value) option" where
  "interpreter_execute n st ast =
     eval_stmt (with_fuel n) (st\<lparr>has_error := False, has_return := False\<rparr>) ast"

definition run_source :: "nat \<Rightarrow> Interpreter \<Rightarrow> stmt \<Rightarrow> (Interpreter \<times> int) option" where
  "run_source n st ast =
     do {
       (st1, result) \<leftarrow> interpreter_execute n st ast;
       Some (st1, if has_error st1 then 1 else 0)
     }"

text \<open>
  \<^verbatim>\<open>interpreter_create\<close>: the global environment at address 0 with the host
  functions of the fragment.
\<close>

definition interpreter_create :: Interpreter where
  "interpreter_create =
     (let (h0, g) = env_create [] None;
          h1 = env_define h0 g ''declare'' (VAL_BUILTIN builtin_declare);
          h2 = env_define h1 g ''announce'' (VAL_BUILTIN builtin_declare);
          h3 = env_define h2 g ''push'' (VAL_BUILTIN builtin_push);
          h4 = env_define h3 g ''proceed'' (VAL_BUILTIN builtin_proceed)
      in \<lparr>envs = h4, classes = [], instances = [], global_env = g, current_env = g,
          return_value = VAL_NULL, has_return = False, has_break = False,
          has_continue = False, has_error = False, error_buffer = [],
          current_gen = None, is_resuming = False, resume_stack = [], resume_count = 0,
          printed = []\<rparr>)"

section \<open>Scenarios\<close>

text \<open>
  \<open>k\<close> successive calls of \<^verbatim>\<open>interpreter_gen_next\<close> on one generator, as the
  loop of \<^verbatim>\<open>cycle through\<close> makes them: the value returned by each call and
  the generator as the call leaves it.
\<close>

primrec gen_trace ::
  "evaluator \<Rightarrow> nat \<Rightarrow> Interpreter \<Rightarrow> Generator \<Rightarrow> (Value \<times> Generator) list option" where
  "gen_trace ev 0 st g = Some []"
| "gen_trace ev (Suc k) st g =
     do {
       (st1, v, g1) \<leftarrow> interpreter_gen_next ev st g;
       rest \<leftarrow> gen_trace ev k st1 g1;
       Some ((v, g1) # rest)
     }"

text \<open>
  Scenario 2 of the specification:
  \<^verbatim>\<open>sequence pairs(): cycle from 0 to 2 as i: cycle from 0 to 2 as j: yield [i, j]\<close>
  and \<^verbatim>\<open>cycle through pairs() as p: declare p\<close>. The statement arrays have the
  addresses 1 (body of \<open>pairs\<close>), 2 (outer loop body), 3 (inner loop body) and 4;
  the loops the addresses 10, 11 and 12.
\<close>

definition pairs_yield_block :: block where
  "pairs_yield_block =
     Block 3 [AST_YIELD (Some (AST_LIST [AST_IDENTIFIER ''i'', AST_IDENTIFIER ''j'']))]"

definition pairs_body :: block where
  "pairs_body =
     Block 1 [AST_CYCLE_FROM_TO 10 (AST_INTEGER 0) (AST_INTEGER 2) (AST_IDENTIFIER ''i'')
       (Block 2 [AST_CYCLE_FROM_TO 11 (AST_INTEGER 0) (AST_INTEGER 2) (AST_IDENTIFIER ''j'')
          pairs_yield_block])]"

definition pairs_program :: stmt where
  "pairs_program =
     AST_PROGRAM
       [AST_PROTOCOL ''pairs'' [] pairs_body True,
        AST_CYCLE_THROUGH 12 (AST_CALL ''pairs'' []) (AST_IDENTIFIER ''p'')
          (Block 4 [AST_EXPR_STMT (AST_CALL ''declare'' [AST_IDENTIFIER ''p''])])]"

text \<open>The generator \<^verbatim>\<open>pairs()\<close> as the call returns it, and its first advance.\<close>

definition pairs_start :: "(Interpreter \<times> Generator) option" where
  "pairs_start =
     do {
       (st1, r) \<leftarrow> eval_stmt (with_fuel 5) interpreter_create
                     (AST_PROTOCOL ''pairs'' [] pairs_body True);
       (st2, v) \<leftarrow> eval_expr (with_fuel 5) st1 (AST_CALL ''pairs'' []);
       case v of VAL_GENERATOR g \<Rightarrow> Some (st2, g) | _ \<Rightarrow> None
     }"

definition pairs_state :: Interpreter where
  "pairs_state =
     interpreter_create
       \<lparr>envs := fst (env_create
                      (env_define (envs interpreter_create) 0 ''pairs''
                         (value_function ''pairs'' [] pairs_body True 0))
                      (Some 0))\<rparr>"

definition pairs_gen :: Generator where
  "pairs_gen =
     Generator
       \<lparr>fname = ''pairs'', fparams = [], fbody = pairs_body, closure = 0, is_sequence = True\<rparr>
       1 VAL_NULL GEN_SUSPENDED []"

definition pairs_first_advance :: "Generator option" where
  "pairs_first_advance =
     do {
       (st, g) \<leftarrow> pairs_start;
       (st1, v, g1) \<leftarrow> interpreter_gen_next (with_fuel 20) st g;
       Some g1
     }"

definition pairs_saved_stack :: "GenFrame list option" where
  "pairs_saved_stack = map_option stack pairs_first_advance"

definition pairs_trace :: "(Value \<times> GenStatus \<times> GenFrame list) list option" where
  "pairs_trace =
     do {
       (st, g) \<leftarrow> pairs_start;
       tr \<leftarrow> gen_trace (with_fuel 20) 5 st g;
       Some (map (\<lambda>(v, g1). (v, status g1, stack g1)) tr)
     }"

text \<open>
  Scenario 1 of the specification:
  \<^verbatim>\<open>sequence fib(): designate a = 0; designate b = 1;
    cycle while true: yield a; designate t = a + b; a = b; b = t\<close>,
  \<^verbatim>\<open>designate g = fib(); designate xs = []\<close>,
  \<^verbatim>\<open>cycle from 0 to 10 as _: push(xs, proceed(g))\<close>, \<^verbatim>\<open>declare xs\<close>.
\<close>

definition fib_program :: stmt where
  "fib_program =
     AST_PROGRAM
       [AST_PROTOCOL ''fib'' []
          (Block 1
             [AST_DESIGNATE (AST_IDENTIFIER ''a'') (AST_INTEGER 0),
              AST_DESIGNATE (AST_IDENTIFIER ''b'') (AST_INTEGER 1),
              AST_CYCLE_WHILE 10 (AST_BOOL True)
                (Block 2
                   [AST_YIELD (Some (AST_IDENTIFIER ''a'')),
                    AST_DESIGNATE (AST_IDENTIFIER ''t'')
                      (AST_BINARY_OP OP_ADD (AST_IDENTIFIER ''a'') (AST_IDENTIFIER ''b'')),
                    AST_ASSIGN (AST_IDENTIFIER ''a'') (AST_IDENTIFIER ''b''),
                    AST_ASSIGN (AST_IDENTIFIER ''b'') (AST_IDENTIFIER ''t'')])])
          True,
        AST_DESIGNATE (AST_IDENTIFIER ''g'') (AST_CALL ''fib'' []),
        AST_DESIGNATE (AST_IDENTIFIER ''xs'') (AST_LIST []),
        AST_CYCLE_FROM_TO 11 (AST_INTEGER 0) (AST_INTEGER 10) (AST_IDENTIFIER ''_'')
          (Block 3
             [AST_EXPR_STMT
                (AST_CALL ''push''
                   [AST_IDENTIFIER ''xs'', AST_CALL ''proceed'' [AST_IDENTIFIER ''g'']])]),
        AST_EXPR_STMT (AST_CALL ''declare'' [AST_IDENTIFIER ''xs''])]"

text \<open>
  The same program with each value of \<^verbatim>\<open>proceed(g)\<close> declared instead of pushed:
  what the ten calls return.
\<close>

definition fib_proceed_program :: stmt where
  "fib_proceed_program =
     (case fib_program of
        AST_PROGRAM ss \<Rightarrow>
          AST_PROGRAM
            (take 2 ss @
             [AST_CYCLE_FROM_TO 11 (AST_INTEGER 0) (AST_INTEGER 10) (AST_IDENTIFIER ''_'')
                (Block 3
                   [AST_EXPR_STMT
                      (AST_CALL ''declare'' [AST_CALL ''proceed'' [AST_IDENTIFIER ''g'']])])])
      | _ \<Rightarrow> fib_program)"

text \<open>
  A sequence whose body yields nothing, advanced three times through its binding:
  \<^verbatim>\<open>sequence silent(): declare "x"\<close>, \<^verbatim>\<open>designate g = silent()\<close> and three
  times \<^verbatim>\<open>declare proceed(g)\<close>.
\<close>

definition silent_program :: stmt where
  "silent_program =
     AST_PROGRAM
       [AST_PROTOCOL ''silent'' []
          (Block 1 [AST_EXPR_STMT (AST_CALL ''declare'' [AST_STRING ''x''])]) True,
        AST_DESIGNATE (AST_IDENTIFIER ''g'') (AST_CALL ''silent'' []),
        AST_EXPR_STMT (AST_CALL ''declare'' [AST_CALL ''proceed'' [AST_IDENTIFIER ''g'']]),
        AST_EXPR_STMT (AST_CALL ''declare'' [AST_CALL ''proceed'' [AST_IDENTIFIER ''g'']]),
        AST_EXPR_STMT (AST_CALL ''declare'' [AST_CALL ''proceed'' [AST_IDENTIFIER ''g'']])]"

text \<open>
  An uncaught error in the first top-level statement:
  \<^verbatim>\<open>designate x = 1 // 0\<close>, then \<^verbatim>\<open>declare "after"\<close>.
\<close>

definition uncaught_error_program :: stmt where
  "uncaught_error_program =
     AST_PROGRAM
       [AST_DESIGNATE (AST_IDENTIFIER ''x'')
          (AST_BINARY_OP OP_INT_DIV (AST_INTEGER 1) (AST_INTEGER 0)),
        AST_EXPR_STMT (AST_CALL ''declare'' [AST_STRING ''after''])]"

text \<open>
  An assignment two scopes below the binding:
  \<^verbatim>\<open>designate x = 1\<close>,
  \<^verbatim>\<open>protocol outer(): protocol inner(): x = 2\<close> followed by \<^verbatim>\<open>inner()\<close> and
  \<^verbatim>\<open>declare x\<close> in \<open>outer\<close>, then \<^verbatim>\<open>outer()\<close> and \<^verbatim>\<open>declare x\<close>.
\<close>

definition nested_assign_program :: stmt where
  "nested_assign_program =
     AST_PROGRAM
       [AST_DESIGNATE (AST_IDENTIFIER ''x'') (AST_INTEGER 1),
        AST_PROTOCOL ''outer'' []
          (Block 1
             [AST_PROTOCOL ''inner'' []
                (Block 2 [AST_ASSIGN (AST_IDENTIFIER ''x'') (AST_INTEGER 2)]) False,
              AST_EXPR_STMT (AST_CALL ''inner'' []),
              AST_EXPR_STMT (AST_CALL ''declare'' [AST_IDENTIFIER ''x''])])
          False,
        AST_EXPR_STMT (AST_CALL ''outer'' []),
        AST_EXPR_STMT (AST_CALL ''declare'' [AST_IDENTIFIER ''x''])]"

text \<open>
  An override read through a shadowing parameter:
  \<^verbatim>\<open>protocol show(g): declare g\<close>, \<^verbatim>\<open>override g = 7\<close>, \<^verbatim>\<open>show(5)\<close>.
\<close>

definition override_shadow_program :: stmt where
  "override_shadow_program =
     AST_PROGRAM
       [AST_PROTOCOL ''show'' [ASTParam (AST_IDENTIFIER ''g'') None False]
          (Block 1 [AST_EXPR_STMT (AST_CALL ''declare'' [AST_IDENTIFIER ''g''])]) False,
        AST_OVERRIDE ''g'' (AST_INTEGER 7),
        AST_EXPR_STMT (AST_CALL ''show'' [AST_INTEGER 5])]"

text \<open>
  The scopes from a scope to the root of its parent chain: \<open>scope_chain h cs\<close> holds
  when \<open>cs\<close> lists the addresses from a scope up to a scope without parent.
\<close>

fun scope_chain :: "heap \<Rightarrow> nat list \<Rightarrow> bool" where
  "scope_chain h [] = False"
| "scope_chain h [e] = (e < length h \<and> parent (h ! e) = None)"
| "scope_chain h (e # p # cs) =
     (e < length h \<and> parent (h ! e) = Some p \<and> scope_chain h (p # cs))"

text \<open>A global scope \<open>0\<close> binding \<open>x\<close>, a scope \<open>1\<close> below it and a scope \<open>2\<close> below that.\<close>

definition heap3 :: heap where
  "heap3 =
     (let (h0, g) = env_create [] None;
          h1 = env_define h0 g ''x'' (VAL_INT 1);
          (h2, m) = env_create h1 (Some g);
          (h3, i) = env_create h2 (Some m)
      in h3)"

section \<open>Statements of the properties\<close>

text \<open>\<^verbatim>\<open>val->type\<close>: the tag of a value, as the number of the enumeration constant.\<close>

fun type_tag :: "Value \<Rightarrow> nat" where
  "type_tag VAL_NULL = 0"
| "type_tag (VAL_BOOL b) = 1"
| "type_tag (VAL_INT i) = 2"
| "type_tag (VAL_FLOAT f) = 3"
| "type_tag (VAL_STRING s) = 4"
| "type_tag (VAL_LIST xs) = 5"
| "type_tag (VAL_DICT d) = 6"
| "type_tag (VAL_FUNCTION f) = 7"
| "type_tag (VAL_BUILTIN b) = 8"
| "type_tag (VAL_INSTANCE i) = 9"
| "type_tag (VAL_CLASS c) = 10"
| "type_tag (VAL_GENERATOR g) = 11"
| "type_tag (VAL_PROMISE p) = 12"








text \<open>
  The status and the saved frame stack of the generator bound to a name in the
  global scope.
\<close>

definition binding_state :: "Interpreter \<Rightarrow> string \<Rightarrow> (GenStatus \<times> GenFrame list) option" where
  "binding_state st name =
     (case env_lookup (envs st) (global_env st) name of
        Some (Some (VAL_GENERATOR g)) \<Rightarrow> Some (status g, stack g)
      | _ \<Rightarrow> None)"

section \<open>Evaluation by rewriting\<close>

text \<open>
  A concrete run is evaluated by rewriting with the definitions; the handle is
  unfolded one field at a time, and the continuation of a bind is rewritten only
  once its first part is a value.
\<close>

lemma with_fuel_Suc:
  "fuel (with_fuel (Suc n)) = Suc n"
  "ev_expr (with_fuel (Suc n)) = eval_expr (with_fuel n)"
  "ev_stmt (with_fuel (Suc n)) = eval_stmt (with_fuel n)"
  "ev_assign (with_fuel (Suc n)) = assign_to_target (with_fuel n)"
  "ev_block (with_fuel (Suc n)) = exec_block (with_fuel n)"
  "ev_while (with_fuel (Suc n)) = cycle_while (with_fuel n)"
  "ev_through_gen (with_fuel (Suc n)) = cycle_through_gen (with_fuel n)"
  "ev_call (with_fuel (Suc n)) = interpreter_call (with_fuel n)"
  "ev_gen_next (with_fuel (Suc n)) = interpreter_gen_next (with_fuel n)"
  by (simp_all add: Let_def)

lemma with_fuel_numeral:
  "fuel (with_fuel (numeral k)) = numeral k"
  "ev_expr (with_fuel (numeral k)) = eval_expr (with_fuel (pred_numeral k))"
  "ev_stmt (with_fuel (numeral k)) = eval_stmt (with_fuel (pred_numeral k))"
  "ev_assign (with_fuel (numeral k)) = assign_to_target (with_fuel (pred_numeral k))"
  "ev_block (with_fuel (numeral k)) = exec_block (with_fuel (pred_numeral k))"
  "ev_while (with_fuel (numeral k)) = cycle_while (with_fuel (pred_numeral k))"
  "ev_through_gen (with_fuel (numeral k)) = cycle_through_gen (with_fuel (pred_numeral k))"
  "ev_call (with_fuel (numeral k)) = interpreter_call (with_fuel (pred_numeral k))"
  "ev_gen_next (with_fuel (numeral k)) = interpreter_gen_next (with_fuel (pred_numeral k))"
  by (simp_all add: numeral_eq_Suc Let_def)

lemmas value_copy_numeral =
  value_copy.simps(2)[of "pred_numeral k" for k, folded numeral_eq_Suc]
  copy_items.simps(2)[of "pred_numeral k" for k, folded numeral_eq_Suc]
  copy_entries.simps(2)[of "pred_numeral k" for k, folded numeral_eq_Suc]
  copy_frames.simps(2)[of "pred_numeral k" for k, folded numeral_eq_Suc]

lemma bind_weak_cong: "m = m' \<Longrightarrow> Option.bind m f = Option.bind m' f"
  by simp

lemmas eval_defs =
  run_source_def interpreter_execute_def interpreter_create_def
  eval_expr_def eval_stmt_def assign_to_target_def exec_block_def cycle_while_def
  cycle_through_gen_def interpreter_call_def interpreter_gen_next_def call_builtin_def
  eval_bound_def matching_frame_def top_frame_def consume_frame_def suspending_def
  push_frame_def stack_count_def set_status_def int_or_zero_def value_function_def
  gen_push_frame_def value_generator_new_def runtime_error_def gen_resume_def gen_restore_def
  env_get_def env_create_def env_define_def env_find_def env_set_def env_force_set_def
  entry_assign_def entry_mark_override_def
  env_lookup.simps with_fuel_Suc with_fuel_numeral value_copy_numeral

declare with_fuel.simps [simp del]



lemma interpreter_create_eq:
  "interpreter_create =
     \<lparr>envs =
        [\<lparr>entries =
            [\<lparr>entry_name = ''proceed'', entry_value = VAL_BUILTIN builtin_proceed,
               is_override = False\<rparr>,
             \<lparr>entry_name = ''push'', entry_value = VAL_BUILTIN builtin_push,
               is_override = False\<rparr>,
             \<lparr>entry_name = ''announce'', entry_value = VAL_BUILTIN builtin_declare,
               is_override = False\<rparr>,
             \<lparr>entry_name = ''declare'', entry_value = VAL_BUILTIN builtin_declare,
               is_override = False\<rparr>],
           parent = None, global = 0\<rparr>],
      classes = [], instances = [], global_env = 0, current_env = 0,
      return_value = VAL_NULL, has_return = False, has_break = False,
      has_continue = False, has_error = False, error_buffer = [],
      current_gen = None, is_resuming = False, resume_stack = [], resume_count = 0,
      printed = []\<rparr>"
  by (simp add: interpreter_create_def env_create_def env_define_def)

section \<open>Generators: the nested loops of scenario 2 (C1)\<close>

lemma pairs_start_eq: "pairs_start = Some (pairs_state, pairs_gen)"
  by (simp add: pairs_start_def pairs_state_def pairs_gen_def eval_defs cong: bind_weak_cong)

lemma pairs_trace_eq:
  "pairs_trace = Some
  [(VAL_LIST [VAL_INT 0, VAL_INT 0], GEN_SUSPENDED,
    [GenFrame GEN_FRAME_BLOCK 1 VAL_NULL 0 0 3,
     GenFrame GEN_FRAME_CYCLE_FROM_TO 0 VAL_NULL 0 2 11,
     GenFrame GEN_FRAME_BLOCK 0 VAL_NULL 0 0 2,
     GenFrame GEN_FRAME_CYCLE_FROM_TO 0 VAL_NULL 0 2 10,
     GenFrame GEN_FRAME_BLOCK 0 VAL_NULL 0 0 1]),
   (VAL_LIST [VAL_INT 0, VAL_INT 1], GEN_SUSPENDED,
    [GenFrame GEN_FRAME_BLOCK 1 VAL_NULL 0 0 3,
     GenFrame GEN_FRAME_CYCLE_FROM_TO 0 VAL_NULL 1 2 11,
     GenFrame GEN_FRAME_BLOCK 0 VAL_NULL 0 0 2,
     GenFrame GEN_FRAME_CYCLE_FROM_TO 0 VAL_NULL 0 2 10,
     GenFrame GEN_FRAME_BLOCK 0 VAL_NULL 0 0 1]),
   (VAL_LIST [VAL_INT 1, VAL_INT 0], GEN_SUSPENDED,
    [GenFrame GEN_FRAME_BLOCK 1 VAL_NULL 0 0 3,
     GenFrame GEN_FRAME_CYCLE_FROM_TO 0 VAL_NULL 0 2 11,
     GenFrame GEN_FRAME_BLOCK 0 VAL_NULL 0 0 2,
     GenFrame GEN_FRAME_CYCLE_FROM_TO 0 VAL_NULL 1 2 10,
     GenFrame GEN_FRAME_BLOCK 0 VAL_NULL 0 0 1]),
   (VAL_LIST [VAL_INT 1, VAL_INT 1], GEN_SUSPENDED,
    [GenFrame GEN_FRAME_BLOCK 1 VAL_NULL 0 0 3,
     GenFrame GEN_FRAME_CYCLE_FROM_TO 0 VAL_NULL 1 2 11,
     GenFrame GEN_FRAME_BLOCK 0 VAL_NULL 0 0 2,
     GenFrame GEN_FRAME_CYCLE_FROM_TO 0 VAL_NULL 1 2 10,
     GenFrame GEN_FRAME_BLOCK 0 VAL_NULL 0 0 1]),
   (VAL_NULL, GEN_DONE, [])]"
  by (simp add: pairs_trace_def pairs_start_eq pairs_state_def pairs_gen_def pairs_body_def
      pairs_yield_block_def eval_defs eval_nat_numeral cong: bind_weak_cong)

lemma pairs_printed:
  "map_option (\<lambda>(st, c). printed st) (run_source 30 interpreter_create pairs_program) =
     Some [[VAL_LIST [VAL_INT 0, VAL_INT 0]], [VAL_LIST [VAL_INT 0, VAL_INT 1]],
           [VAL_LIST [VAL_INT 1, VAL_INT 0]], [VAL_LIST [VAL_INT 1, VAL_INT 1]]]"
  by (simp add: pairs_program_def pairs_body_def pairs_yield_block_def eval_defs
      cong: bind_weak_cong)

lemma pairs_first_advance_eq:
  "pairs_first_advance =
     Some (Generator (func_val pairs_gen) 1 VAL_NULL GEN_SUSPENDED
       [GenFrame GEN_FRAME_BLOCK 1 VAL_NULL 0 0 3,
        GenFrame GEN_FRAME_CYCLE_FROM_TO 0 VAL_NULL 0 2 11,
        GenFrame GEN_FRAME_BLOCK 0 VAL_NULL 0 0 2,
        GenFrame GEN_FRAME_CYCLE_FROM_TO 0 VAL_NULL 0 2 10,
        GenFrame GEN_FRAME_BLOCK 0 VAL_NULL 0 0 1])"
  by (simp add: pairs_first_advance_def pairs_start_eq pairs_state_def pairs_gen_def
      pairs_body_def pairs_yield_block_def eval_defs cong: bind_weak_cong)

text \<open>
  C1, as the claim states it, fails: when the generator of \<open>pairs\<close> suspends for
  the first time, the frame on top of its saved stack (the last one pushed) is
  the frame of the body of \<open>pairs\<close>, the outermost block, and the frame of the
  block that holds the \<^verbatim>\<open>yield\<close>, the innermost suspension point, is at the
  bottom.
\<close>

theorem pairs_top_frame_is_outermost:
  "map_option last pairs_saved_stack =
     Some (GenFrame GEN_FRAME_BLOCK 0 VAL_NULL 0 0 (block_addr pairs_body)) \<and>
   map_option hd pairs_saved_stack =
     Some (GenFrame GEN_FRAME_BLOCK 1 VAL_NULL 0 0 (block_addr pairs_yield_block)) \<and>
   block_addr pairs_body \<noteq> block_addr pairs_yield_block"
  by (simp add: pairs_saved_stack_def pairs_first_advance_eq pairs_body_def
      pairs_yield_block_def)

text \<open>
  C1 (amended): running scenario 2 declares exactly the lists \<open>[0, 0]\<close>, \<open>[0, 1]\<close>,
  \<open>[1, 0]\<close>, \<open>[1, 1]\<close> in that order; five successive advances of the generator
  return these four lists and then void with status done. At every suspension the
  enclosing constructs have pushed their frames innermost first and outermost
  last, so the frame on top of the saved stack is the one of the body of
  \<open>pairs\<close>, the outermost block, and it is the frame the resumption finds first.
\<close>

theorem pairs_iteration:
  "map_option (\<lambda>(st, c). printed st) (run_source 30 interpreter_create pairs_program) =
     Some [[VAL_LIST [VAL_INT 0, VAL_INT 0]], [VAL_LIST [VAL_INT 0, VAL_INT 1]],
           [VAL_LIST [VAL_INT 1, VAL_INT 0]], [VAL_LIST [VAL_INT 1, VAL_INT 1]]] \<and>
   pairs_trace = Some
     [(VAL_LIST [VAL_INT 0, VAL_INT 0], GEN_SUSPENDED,
       [GenFrame GEN_FRAME_BLOCK 1 VAL_NULL 0 0 3,
        GenFrame GEN_FRAME_CYCLE_FROM_TO 0 VAL_NULL 0 2 11,
        GenFrame GEN_FRAME_BLOCK 0 VAL_NULL 0 0 2,
        GenFrame GEN_FRAME_CYCLE_FROM_TO 0 VAL_NULL 0 2 10,
        GenFrame GEN_FRAME_BLOCK 0 VAL_NULL 0 0 1]),
      (VAL_LIST [VAL_INT 0, VAL_INT 1], GEN_SUSPENDED,
       [GenFrame GEN_FRAME_BLOCK 1 VAL_NULL 0 0 3,
        GenFrame GEN_FRAME_CYCLE_FROM_TO 0 VAL_NULL 1 2 11,
        GenFrame GEN_FRAME_BLOCK 0 VAL_NULL 0 0 2,
        GenFrame GEN_FRAME_CYCLE_FROM_TO 0 VAL_NULL 0 2 10,
        GenFrame GEN_FRAME_BLOCK 0 VAL_NULL 0 0 1]),
      (VAL_LIST [VAL_INT 1, VAL_INT 0], GEN_SUSPENDED,
       [GenFrame GEN_FRAME_BLOCK 1 VAL_NULL 0 0 3,
        GenFrame GEN_FRAME_CYCLE_FROM_TO 0 VAL_NULL 0 2 11,
        GenFrame GEN_FRAME_BLOCK 0 VAL_NULL 0 0 2,
        GenFrame GEN_FRAME_CYCLE_FROM_TO 0 VAL_NULL 1 2 10,
        GenFrame GEN_FRAME_BLOCK 0 VAL_NULL 0 0 1]),
      (VAL_LIST [VAL_INT 1, VAL_INT 1], GEN_SUSPENDED,
       [GenFrame GEN_FRAME_BLOCK 1 VAL_NULL 0 0 3,
        GenFrame GEN_FRAME_CYCLE_FROM_TO 0 VAL_NULL 1 2 11,
        GenFrame GEN_FRAME_BLOCK 0 VAL_NULL 0 0 2,
        GenFrame GEN_FRAME_CYCLE_FROM_TO 0 VAL_NULL 1 2 10,
        GenFrame GEN_FRAME_BLOCK 0 VAL_NULL 0 0 1]),
      (VAL_NULL, GEN_DONE, [])] \<and>
   map_option (\<lambda>g. top_frame (gen_resume pairs_state g)) pairs_first_advance =
     Some (Some (GenFrame GEN_FRAME_BLOCK 0 VAL_NULL 0 0 (block_addr pairs_body)))"
  by (simp add: pairs_printed pairs_trace_eq pairs_first_advance_eq gen_resume_def
      top_frame_def pairs_body_def)

section \<open>Generators: scenario 1 (C2)\<close>

lemma fib_printed:
  "map_option (\<lambda>(st, c). printed st) (run_source 30 interpreter_create fib_program) =
     Some [[VAL_LIST []]]"
  by (simp add: fib_program_def eval_defs cong: bind_weak_cong)

lemma fib_proceed_printed:
  "map_option (\<lambda>(st, c). printed st) (run_source 30 interpreter_create fib_proceed_program) =
     Some (replicate 10 [VAL_INT 0])"
  by (simp add: fib_proceed_program_def fib_program_def eval_defs eval_nat_numeral
      cong: bind_weak_cong)

text \<open>
  C2 fails on the code: the Fibonacci scenario declares the empty list. Each
  evaluation of the identifier \<open>g\<close> or \<open>xs\<close> copies the bound value, so every
  \<^verbatim>\<open>proceed(g)\<close> advances a fresh copy of the generator and returns 0, and
  \<^verbatim>\<open>push\<close> appends to a copy of the list: the binding of \<open>xs\<close> stays empty.
\<close>

theorem fib_scenario_declares_empty_list:
  "map_option (\<lambda>(st, c). printed st) (run_source 30 interpreter_create fib_program) =
     Some [[VAL_LIST []]] \<and>
   map_option (\<lambda>(st, c). printed st) (run_source 30 interpreter_create fib_proceed_program) =
     Some (replicate 10 [VAL_INT 0])"
  by (simp only: fib_printed fib_proceed_printed)

section \<open>Advancing a generator (C3)\<close>

text \<open>
  \<^verbatim>\<open>interpreter_gen_next\<close> on the generator it is given: a done generator
  is returned as it is, with void; otherwise, once the body block has returned,
  the call returns, and the status is suspended with the yielded value when the
  return signal is set, done with void when it is not.
\<close>

lemma interpreter_gen_next_done:
  "status gen = GEN_DONE \<Longrightarrow> interpreter_gen_next ev st gen = Some (st, VAL_NULL, gen)"
  by (simp add: interpreter_gen_next_def)

lemma interpreter_gen_next_advance:
  assumes "status gen \<noteq> GEN_DONE"
    and "ev_block ev (gen_resume st gen) (fbody (func_val gen)) = Some st2"
    and "current_gen st2 = Some g2"
  shows "interpreter_gen_next ev st gen =
           (if has_return st2
            then Some (gen_restore st (st2\<lparr>return_value := VAL_NULL, has_return := False\<rparr>),
                       return_value st2, set_status g2 GEN_SUSPENDED)
            else Some (gen_restore st st2, VAL_NULL, set_status g2 GEN_DONE))"
  using assms by (simp add: interpreter_gen_next_def)

text \<open>
  C3 fails on the code for an advance by \<^verbatim>\<open>proceed\<close>: the argument
  \<open>g\<close> is evaluated to a copy of the bound generator, the copy is advanced and
  then dropped. The body of \<open>silent\<close> sets no return signal, so after the first
  \<^verbatim>\<open>proceed(g)\<close> the generator should be done and the later calls should
  return void without running anything; instead each of the three calls runs the
  body (it declares \<open>x\<close>) and returns void, and the generator bound to \<open>g\<close>
  is still suspended with an empty frame stack at the end.
\<close>

theorem proceed_advances_a_copy:
  "map_option (\<lambda>(st, c). (printed st, binding_state st ''g''))
     (run_source 30 interpreter_create silent_program) =
   Some ([[VAL_STRING ''x''], [VAL_NULL], [VAL_STRING ''x''], [VAL_NULL],
          [VAL_STRING ''x''], [VAL_NULL]], Some (GEN_SUSPENDED, []))"
  by (simp add: silent_program_def binding_state_def eval_defs cong: bind_weak_cong)

section \<open>Uncaught errors at top level (C4)\<close>

lemma as_double_1: "as_double (VAL_INT 1) = Some 1"
  by code_simp

lemma as_double_0: "as_double (VAL_INT 0) = Some 0"
  by code_simp

text \<open>
  C4 fails on the code: the loop of \<^verbatim>\<open>AST_PROGRAM\<close> does not test the error
  flag. After the uncaught division by zero in the first top-level statement the
  second statement still runs and declares \<open>after\<close>; the exit status is 1.
\<close>

theorem statement_after_uncaught_error_runs:
  "map_option (\<lambda>(st, c). (printed st, c, has_error st))
     (run_source 30 interpreter_create uncaught_error_program) =
   Some ([[VAL_STRING ''after'']], 1, True)"
  by (simp add: uncaught_error_program_def eval_defs binary_numeric_def as_double_1 as_double_0
      division_by_zero_def cong: bind_weak_cong)

section \<open>Assignment and override (C5, C8)\<close>

lemma heap3_eq:
  "heap3 =
     [\<lparr>entries = [\<lparr>entry_name = ''x'', entry_value = VAL_INT 1, is_override = False\<rparr>],
        parent = None, global = 0\<rparr>,
      \<lparr>entries = [], parent = Some 0, global = 0\<rparr>,
      \<lparr>entries = [], parent = Some 1, global = 0\<rparr>]"
  by (simp add: heap3_def env_create_def env_define_def)

lemma nested_assign_printed:
  "map_option (\<lambda>(st, c). printed st) (run_source 30 interpreter_create nested_assign_program) =
     Some [[VAL_INT 1], [VAL_INT 1]]"
  by (simp add: nested_assign_program_def eval_defs cong: bind_weak_cong)

text \<open>
  C5 fails on the code: \<^verbatim>\<open>env_set\<close> looks at the current scope and at its
  parent only. With \<open>x\<close> bound two scopes up, the assignment defines a new \<open>x\<close>
  in the current scope and the existing binding keeps its value: in the heap of
  three scopes, and in the program whose inner protocol assigns the global \<open>x\<close>
  (both \<^verbatim>\<open>declare x\<close> print 1).
\<close>

theorem assignment_two_scopes_down_defines_local:
  "env_lookup heap3 2 ''x'' = Some (Some (VAL_INT 1)) \<and>
   env_lookup (env_set heap3 2 ''x'' (VAL_INT 2)) 0 ''x'' = Some (Some (VAL_INT 1)) \<and>
   entries (env_set heap3 2 ''x'' (VAL_INT 2) ! 2) =
     [\<lparr>entry_name = ''x'', entry_value = VAL_INT 2, is_override = False\<rparr>] \<and>
   map_option (\<lambda>(st, c). printed st) (run_source 30 interpreter_create nested_assign_program) =
     Some [[VAL_INT 1], [VAL_INT 1]]"
  by (simp add: nested_assign_printed heap3_eq env_lookup.simps env_find_def env_set_def
      env_define_def)

lemma env_find_from_names:
  "map entry_name es = map entry_name es' \<Longrightarrow> env_find_from k es name = env_find_from k es' name"
proof (induction es arbitrary: es' k)
  case Nil then show ?case by simp
next
  case (Cons a es)
  then obtain b es'' where "es' = b # es''" by (cases es') auto
  with Cons show ?case by auto
qed

lemma env_find_from_Some:
  "env_find_from k es name = Some j \<Longrightarrow> k \<le> j \<and> j - k < length es \<and> entry_name (es ! (j - k)) = name"
proof (induction es arbitrary: k)
  case Nil then show ?case by simp
next
  case (Cons a es)
  show ?case
  proof (cases "entry_name a = name")
    case True with Cons.prems show ?thesis by simp
  next
    case False
    with Cons.prems have "env_find_from (Suc k) es name = Some j" by simp
    from Cons.IH[OF this] show ?thesis by (auto simp: Suc_diff_le)
  qed
qed

lemma env_force_set_other:
  "c \<noteq> global (h ! s) \<Longrightarrow> env_force_set h s name v ! c = h ! c"
  by (auto simp: env_force_set_def Let_def entry_assign_def entry_mark_override_def
      env_define_def split: option.splits)

lemma env_force_set_parent:
  "parent (env_force_set h s name v ! c) = parent (h ! c)"
proof (cases "c = global (h ! s)")
  case False
  then show ?thesis by (simp add: env_force_set_other)
next
  case True
  show ?thesis
  proof (cases "c < length h")
    case True
    with \<open>c = global (h ! s)\<close> show ?thesis
      by (auto simp: env_force_set_def Let_def entry_assign_def entry_mark_override_def
          env_define_def split: option.splits)
  next
    case False
    then have "length h \<le> c" by simp
    with \<open>c = global (h ! s)\<close> show ?thesis
      by (auto simp: env_force_set_def Let_def entry_assign_def entry_mark_override_def
          env_define_def list_update_beyond split: option.splits)
  qed
qed

lemma env_find_other:
  "c \<noteq> global (h ! s) \<Longrightarrow> env_find (env_force_set h s name v) c name = env_find h c name"
  by (simp add: env_find_def env_force_set_other)

lemma env_force_set_global:
  assumes "global (h ! s) < length h"
  shows "\<exists>i. env_find (env_force_set h s name v) (global (h ! s)) name = Some i \<and>
             entry_value (entries (env_force_set h s name v ! global (h ! s)) ! i) = v"
proof (cases "env_find h (global (h ! s)) name")
  case None
  with assms show ?thesis
    by (simp add: env_force_set_def Let_def env_define_def env_find_def)
next
  case (Some i)
  let ?g = "global (h ! s)"
  let ?es = "entries (h ! ?g)"
  from Some have f: "env_find_from 0 ?es name = Some i" by (simp add: env_find_def)
  from env_find_from_Some[OF f] have i: "i < length ?es" by simp
  let ?es' = "(?es[i := (?es ! i)\<lparr>entry_value := v\<rparr>])"
  let ?es'' = "?es'[i := (?es' ! i)\<lparr>is_override := True\<rparr>]"
  have h': "entries (env_force_set h s name v ! ?g) = ?es''"
    using Some assms
    by (simp add: env_force_set_def Let_def entry_assign_def entry_mark_override_def)
  have "map entry_name ?es'' = map entry_name ?es"
    using i by (simp add: map_update list_update_same_conv)
  then have "env_find_from 0 ?es'' name = env_find_from 0 ?es name"
    by (rule env_find_from_names)
  with f h' have "env_find (env_force_set h s name v) ?g name = Some i"
    by (simp add: env_find_def)
  moreover have "entry_value (?es'' ! i) = v" using i by simp
  ultimately show ?thesis using h' by simp
qed

lemma lookup_after_force_set:
  assumes "scope_chain h (e # cs)"
    and "last (e # cs) = global (h ! s)"
    and "\<forall>c \<in> set (e # cs). c \<noteq> global (h ! s) \<longrightarrow> env_find h c name = None"
  shows "env_lookup (env_force_set h s name v) e name = Some (Some v)"
  using assms
proof (induction cs arbitrary: e)
  case Nil
  then have g: "e = global (h ! s)" "e < length h" by simp_all
  from env_force_set_global[of h s name v] g
  obtain i where "env_find (env_force_set h s name v) e name = Some i"
    "entry_value (entries (env_force_set h s name v ! e) ! i) = v" by auto
  then show ?case by (subst env_lookup.simps) simp
next
  case (Cons p cs)
  show ?case
  proof (cases "e = global (h ! s)")
    case True
    from Cons.prems(1) have "e < length h" by simp
    with env_force_set_global[of h s name v] True
    obtain i where "env_find (env_force_set h s name v) e name = Some i"
      "entry_value (entries (env_force_set h s name v ! e) ! i) = v" by auto
    then show ?thesis by (subst env_lookup.simps) simp
  next
    case False
    with Cons.prems(3) have "env_find h e name = None" by simp
    with False have nf: "env_find (env_force_set h s name v) e name = None"
      by (simp add: env_find_other)
    from Cons.prems(1) have par: "parent (h ! e) = Some p" and ch: "scope_chain h (p # cs)"
      by simp_all
    have "env_lookup (env_force_set h s name v) p name = Some (Some v)"
      using Cons.IH[OF ch] Cons.prems(2,3) by simp
    with nf par show ?thesis
      by (subst env_lookup.simps) (simp add: env_force_set_parent)
  qed
qed

lemma override_shadow_printed:
  "map_option (printed \<circ> fst) (run_source 30 interpreter_create override_shadow_program) =
     Some [[VAL_INT 5]]"
  by (simp add: override_shadow_program_def eval_defs cong: bind_weak_cong)

text \<open>
  C8, as the claim states it, fails: after \<^verbatim>\<open>override g = 7\<close>, the identifier
  \<open>g\<close> evaluated in the scope of a call whose parameter is named \<open>g\<close> yields the
  argument 5.
\<close>

theorem override_is_shadowed_by_local:
  "map_option (printed \<circ> fst) (run_source 30 interpreter_create override_shadow_program) =
     Some [[VAL_INT 5]]"
  by (rule override_shadow_printed)

text \<open>
  C8 (amended): after \<^verbatim>\<open>override g = v\<close> has run, evaluating the identifier
  \<open>g\<close> in a scope whose parent chain ends in the global scope, and in which no
  scope below the global one binds \<open>g\<close>, yields a copy of \<open>v\<close> and raises no
  error.
\<close>

theorem override_then_identifier:
  assumes "\<not> has_return st"
    and "ev_expr ev st value_e = Some (st1, v)"
    and "scope_chain (envs st1) (e # cs)"
    and "last (e # cs) = global (envs st1 ! current_env st1)"
    and "\<forall>c \<in> set (e # cs). c \<noteq> global (envs st1 ! current_env st1) \<longrightarrow>
           env_find (envs st1) c name = None"
  shows "\<exists>st2. eval_stmt ev st (AST_OVERRIDE name value_e) = Some (st2, VAL_NULL) \<and>
           eval_expr ev' (st2\<lparr>current_env := e\<rparr>) (AST_IDENTIFIER name) =
             do { (h1, c) \<leftarrow> value_copy (fuel ev') (envs st2) v;
                  Some (st2\<lparr>envs := h1, current_env := e\<rparr>, c) }"
proof -
  let ?h = "env_force_set (envs st1) (current_env st1) name v"
  let ?st2 = "st1\<lparr>envs := ?h\<rparr>"
  have a: "eval_stmt ev st (AST_OVERRIDE name value_e) = Some (?st2, VAL_NULL)"
    using assms(1,2) by (simp add: eval_stmt_def)
  have "env_lookup ?h e name = Some (Some v)"
    using assms(3,4,5) by (rule lookup_after_force_set)
  then have "eval_expr ev' (?st2\<lparr>current_env := e\<rparr>) (AST_IDENTIFIER name) =
             do { (h1, c) \<leftarrow> value_copy (fuel ev') (envs ?st2) v;
                  Some (?st2\<lparr>envs := h1, current_env := e\<rparr>, c) }"
    by (cases "value_copy (fuel ev') ?h v") (auto simp: eval_expr_def env_get_def)
  with a show ?thesis by blast
qed

theorem override_then_identifier_witness:
  "\<exists>st2. eval_stmt (with_fuel 3) (interpreter_create\<lparr>envs := heap3, current_env := 2\<rparr>)
            (AST_OVERRIDE ''g'' (AST_INTEGER 7)) = Some (st2, VAL_NULL) \<and>
         eval_expr (with_fuel 3) (st2\<lparr>current_env := 1\<rparr>) (AST_IDENTIFIER ''g'') =
           Some (st2\<lparr>current_env := 1\<rparr>, VAL_INT 7)"
proof -
  let ?st = "interpreter_create\<lparr>envs := heap3, current_env := 2\<rparr>"
  have 1: "\<not> has_return ?st" by (simp add: interpreter_create_def env_create_def)
  have 2: "ev_expr (with_fuel 3) ?st (AST_INTEGER 7) = Some (?st, VAL_INT 7)"
    by (simp add: with_fuel_numeral eval_expr_def)
  have 3: "scope_chain (envs ?st) (1 # [0])" by (simp add: heap3_eq)
  have 4: "last (1 # [0]) = global (envs ?st ! current_env ?st)" by (simp add: heap3_eq)
  have 5: "\<forall>c \<in> set (1 # [0]). c \<noteq> global (envs ?st ! current_env ?st) \<longrightarrow>
             env_find (envs ?st) c ''g'' = None"
    by (simp add: heap3_eq env_find_def)
  from override_then_identifier[OF 1 2 3 4 5, of "with_fuel 3"]
  obtain st2 where a: "eval_stmt (with_fuel 3) ?st (AST_OVERRIDE ''g'' (AST_INTEGER 7)) = Some (st2, VAL_NULL)"
    and b: "eval_expr (with_fuel 3) (st2\<lparr>current_env := 1\<rparr>) (AST_IDENTIFIER ''g'') =
             do { (h1, c) \<leftarrow> value_copy (fuel (with_fuel 3)) (envs st2) (VAL_INT 7);
                  Some (st2\<lparr>envs := h1, current_env := 1\<rparr>, c) }"
    by blast
  from b have "eval_expr (with_fuel 3) (st2\<lparr>current_env := 1\<rparr>) (AST_IDENTIFIER ''g'') =
           Some (st2\<lparr>current_env := 1\<rparr>, VAL_INT 7)"
    by (simp add: with_fuel_numeral value_copy_numeral)
  with a show ?thesis by blast
qed


section \<open>Private members (C9)\<close>






section \<open>The equality operator and the equality of values (C10)\<close>

lemma value_equals_tag: "type_tag a \<noteq> type_tag b \<Longrightarrow> \<not> value_equals a b"
  by (cases a; cases b) simp_all

lemma eq_int_float:
  assumes "round_double f = Some f" and "f = of_int i"
  shows "eval_expr (with_fuel (Suc n)) st (AST_BINARY_OP OP_EQ (AST_INTEGER i) (AST_FLOAT f)) =
           Some (st, VAL_BOOL True)"
  using assms
  by (simp add: eval_expr_def with_fuel_Suc binary_numeric_def as_double_def is_float_def)

lemma situation_float_int:
  assumes "\<not> has_return st"
  shows "eval_stmt (with_fuel (Suc n)) st
           (AST_SITUATION (AST_FLOAT f) [AST_ALIGNMENT False [AST_INTEGER i] body]) =
         Some (st, VAL_NULL)"
  using assms
  by (simp add: eval_stmt_def eval_expr_def with_fuel_Suc)

lemma eq_numeric:
  assumes "ev_expr ev st l = Some (st1, lv)" "ev_expr ev st1 r = Some (st2, rv)"
    "as_double lv = Some x" "as_double rv = Some y"
  shows "eval_expr ev st (AST_BINARY_OP OP_EQ l r) = Some (st2, VAL_BOOL (x = y))"
  using assms by (simp add: eval_expr_def binary_numeric_def)

text \<open>
  C10: the operator \<^verbatim>\<open>==\<close> on two numbers answers by comparing the operands
  as doubles, an integer being converted to the nearest double first, so an
  integer literal and a float literal denoting the same number compare true; the
  equality of values used by \<^verbatim>\<open>situation\<close> is false whenever the type tags
  differ, and a situation on a float with one alignment listing an integer runs
  no body and leaves the state as it was.
\<close>

theorem equality_operator_vs_equals:
  "(ev_expr ev st l = Some (st1, lv) \<longrightarrow> ev_expr ev st1 r = Some (st2, rv) \<longrightarrow>
    as_double lv = Some x \<longrightarrow> as_double rv = Some y \<longrightarrow>
      eval_expr ev st (AST_BINARY_OP OP_EQ l r) = Some (st2, VAL_BOOL (x = y))) \<and>
   as_double (VAL_INT i) = round_double (of_int i) \<and>
   as_double (VAL_FLOAT f) = Some f \<and>
   (round_double f = Some f \<longrightarrow> f = of_int i \<longrightarrow>
      eval_expr (with_fuel (Suc n)) st (AST_BINARY_OP OP_EQ (AST_INTEGER i) (AST_FLOAT f)) =
        Some (st, VAL_BOOL True)) \<and>
   (type_tag a \<noteq> type_tag b \<longrightarrow> \<not> value_equals a b) \<and>
   (\<not> has_return st \<longrightarrow>
      eval_stmt (with_fuel (Suc n)) st
        (AST_SITUATION (AST_FLOAT f) [AST_ALIGNMENT False [AST_INTEGER i] body]) =
      Some (st, VAL_NULL))"
proof (intro conjI impI)
  show "as_double (VAL_INT i) = round_double (of_int i)" by (simp add: as_double_def)
  show "as_double (VAL_FLOAT f) = Some f" by (simp add: as_double_def)
qed (simp_all add: eq_numeric eq_int_float value_equals_tag situation_float_int)

lemma round_double_1: "round_double 1 = Some 1"
  by code_simp

theorem equality_operator_vs_equals_witness:
  "ev_expr (with_fuel (Suc 0)) interpreter_create (AST_INTEGER 1) =
     Some (interpreter_create, VAL_INT 1) \<and>
   ev_expr (with_fuel (Suc 0)) interpreter_create (AST_FLOAT 2) =
     Some (interpreter_create, VAL_FLOAT 2) \<and>
   as_double (VAL_INT 1) = Some 1 \<and> as_double (VAL_FLOAT 2) = Some 2 \<and>
   eval_expr (with_fuel (Suc 0)) interpreter_create
     (AST_BINARY_OP OP_EQ (AST_INTEGER 1) (AST_FLOAT 2)) =
     Some (interpreter_create, VAL_BOOL False) \<and>
   round_double 1 = Some 1 \<and> (1::rat) = of_int 1 \<and>
   eval_expr (with_fuel (Suc 0)) interpreter_create
     (AST_BINARY_OP OP_EQ (AST_INTEGER 1) (AST_FLOAT 1)) = Some (interpreter_create, VAL_BOOL True) \<and>
   type_tag (VAL_FLOAT 1) \<noteq> type_tag (VAL_INT 1) \<and>
   \<not> value_equals (VAL_FLOAT 1) (VAL_INT 1) \<and>
   \<not> has_return interpreter_create \<and>
   eval_stmt (with_fuel (Suc 0)) interpreter_create
     (AST_SITUATION (AST_FLOAT 1)
        [AST_ALIGNMENT False [AST_INTEGER 1]
           (Block 1 [AST_EXPR_STMT (AST_CALL ''declare'' [AST_STRING ''one''])])]) =
   Some (interpreter_create, VAL_NULL)"
proof -
  have 1: "round_double 1 = Some 1" by (rule round_double_1)
  have 2: "(1::rat) = of_int 1" by simp
  have 3: "type_tag (VAL_FLOAT 1) \<noteq> type_tag (VAL_INT 1)" by simp
  have 4: "\<not> has_return interpreter_create" by (simp add: interpreter_create_eq)
  have 5: "ev_expr (with_fuel (Suc 0)) interpreter_create (AST_INTEGER 1) =
     Some (interpreter_create, VAL_INT 1)"
    by (simp add: with_fuel_Suc eval_expr_def)
  have 6: "ev_expr (with_fuel (Suc 0)) interpreter_create (AST_FLOAT 2) =
     Some (interpreter_create, VAL_FLOAT 2)"
    by (simp add: with_fuel_Suc eval_expr_def)
  have 7: "as_double (VAL_INT 1) = Some 1" by (simp add: as_double_def 1)
  have 8: "as_double (VAL_FLOAT 2) = Some 2" by (simp add: as_double_def)
  from equality_operator_vs_equals[of "with_fuel (Suc 0)" interpreter_create "AST_INTEGER 1"
      interpreter_create "VAL_INT 1" "AST_FLOAT 2" interpreter_create "VAL_FLOAT 2" 1 2
      1 1 0 "VAL_FLOAT 1" "VAL_INT 1"
      "Block 1 [AST_EXPR_STMT (AST_CALL ''declare'' [AST_STRING ''one''])]"] 1 2 3 4 5 6 7 8
  show ?thesis by simp
qed


section \<open>Slices (C7)\<close>




























lemma slice_string_negative_step: "slice_string ''abc'' 0 2 (- 1) = None"
  unfolding slice_string_def Let_def
  by (simp add: slice_start_def slice_end_def)








section \<open>Integer division and remainder (C6)\<close>

subsection \<open>Powers of two and the binary exponent\<close>









subsection \<open>Rounding to the nearest integer, ties to even\<close>





subsection \<open>Doubles that are exact\<close>








subsection \<open>The quotient of two integers of at most 53 bits\<close>















subsection \<open>The operators on integers\<close>









end
